theory Spec2Isabelle
  imports Complex_Main "HOL-Library.Sublist" "HOL-Library.Char_ord" "HOL-Library.List_Lexorder"
    "HOL-Library.Product_Lexorder"
begin

section \<open>Python strings\<close>

text \<open>
  A Python \<open>str\<close> is a sequence of Unicode code points. It is modelled by its UTF-8
  encoding, a HOL \<open>string\<close>: an ASCII character is one byte, any other character is a
  lead byte followed by continuation bytes. Containment of one string in another and
  the order of strings by code point are the same on the encodings as on the strings.
\<close>

definition is_ascii :: "string \<Rightarrow> bool" where
  "is_ascii s = list_all (\<lambda>c. (of_char c :: nat) < 128) s"

definition is_continuation :: "char \<Rightarrow> bool" where
  "is_continuation c = (let n = (of_char c :: nat) in 128 \<le> n \<and> n < 192)"

text \<open>The characters of a string, each as the bytes of its encoding.\<close>

function code_points :: "string \<Rightarrow> string list" where
  "code_points [] = []"
| "code_points (c # cs) =
     (c # takeWhile is_continuation cs) # code_points (dropWhile is_continuation cs)"
  by pat_completeness auto
termination
  by (relation "measure length") (auto simp: length_dropWhile_le le_imp_less_Suc)

text \<open>\<open>len(s)\<close>\<close>

definition len :: "string \<Rightarrow> nat" where
  "len s = length (code_points s)"

text \<open>
  \<open>str.lower()\<close> maps \<open>A..Z\<close> to \<open>a..z\<close> and leaves the other ASCII characters alone.
  On a string with a character outside ASCII it follows the Unicode case mappings,
  which depend on the context of a character (the final sigma): there it is left to
  the platform, see \<open>unicode_lower\<close> below.
\<close>

definition lower_char :: "char \<Rightarrow> char" where
  "lower_char c = (let n = (of_char c :: nat) in if 65 \<le> n \<and> n \<le> 90 then char_of (n + 32) else c)"

definition ascii_lower :: "string \<Rightarrow> string" where
  "ascii_lower s = map lower_char s"

text \<open>
  The whitespace of \<open>str.strip()\<close> and \<open>str.split()\<close>: the 29 characters for which
  \<open>str.isspace()\<close> holds, the code points 9 to 13, 28 to 32, U+0085, U+00A0, U+1680,
  U+2000 to U+200A, U+2028, U+2029, U+202F, U+205F and U+3000.
\<close>

definition whitespace :: "string list" where
  "whitespace =
     [ [CHR 0x09], [CHR 0x0A], [CHR 0x0B], [CHR 0x0C], [CHR 0x0D],
      [CHR 0x1C], [CHR 0x1D], [CHR 0x1E], [CHR 0x1F], [CHR 0x20],
      [CHR 0xC2, CHR 0x85], [CHR 0xC2, CHR 0xA0], [CHR 0xE1, CHR 0x9A, CHR 0x80],
      [CHR 0xE2, CHR 0x80, CHR 0x80], [CHR 0xE2, CHR 0x80, CHR 0x81],
      [CHR 0xE2, CHR 0x80, CHR 0x82], [CHR 0xE2, CHR 0x80, CHR 0x83],
      [CHR 0xE2, CHR 0x80, CHR 0x84], [CHR 0xE2, CHR 0x80, CHR 0x85],
      [CHR 0xE2, CHR 0x80, CHR 0x86], [CHR 0xE2, CHR 0x80, CHR 0x87],
      [CHR 0xE2, CHR 0x80, CHR 0x88], [CHR 0xE2, CHR 0x80, CHR 0x89],
      [CHR 0xE2, CHR 0x80, CHR 0x8A], [CHR 0xE2, CHR 0x80, CHR 0xA8],
      [CHR 0xE2, CHR 0x80, CHR 0xA9], [CHR 0xE2, CHR 0x80, CHR 0xAF],
      [CHR 0xE2, CHR 0x81, CHR 0x9F], [CHR 0xE3, CHR 0x80, CHR 0x80] ]"

definition is_space :: "string \<Rightarrow> bool" where
  "is_space code_point = (code_point \<in> set whitespace)"

definition strip :: "string \<Rightarrow> string" where
  "strip s = concat (rev (dropWhile is_space (rev (dropWhile is_space (code_points s)))))"

text \<open>\<open>s.split()\<close>: the maximal runs of non-whitespace characters, in order.\<close>

fun split_acc :: "string list \<Rightarrow> string list \<Rightarrow> string list" where
  "split_acc w [] = (if w = [] then [] else [concat (rev w)])"
| "split_acc w (c # cs) =
     (if is_space c then (if w = [] then split_acc [] cs else concat (rev w) # split_acc [] cs)
      else split_acc (c # w) cs)"

definition split :: "string \<Rightarrow> string list" where
  "split s = split_acc [] (code_points s)"

text \<open>\<open>p in s\<close> on strings: \<open>p\<close> occurs in \<open>s\<close> as a contiguous substring.\<close>

fun str_in :: "string \<Rightarrow> string \<Rightarrow> bool" where
  "str_in p [] = (p = [])"
| "str_in p (c # s) = (prefix p (c # s) \<or> str_in p s)"

text \<open>\<open>any(phrase in s for phrase in phrases)\<close>\<close>

definition any_in :: "string list \<Rightarrow> string \<Rightarrow> bool" where
  "any_in phrases s = list_ex (\<lambda>phrase. str_in phrase s) phrases"

text \<open>\<open>sep.join(xs)\<close>\<close>

fun join :: "string \<Rightarrow> string list \<Rightarrow> string" where
  "join sep [] = []"
| "join sep [x] = x"
| "join sep (x # y # ys) = x @ sep @ join sep (y # ys)"

section \<open>Numbers\<close>

text \<open>
  \<open>str(n)\<close> of a non-negative integer: its decimal digits. The recursion is guarded by
  the test \<open>n < 10\<close>, passed along as an argument.
\<close>

definition digit_char :: "int \<Rightarrow> char" where
  "digit_char d = char_of (48 + d)"

function digits_step :: "bool \<Rightarrow> int \<Rightarrow> string" where
  "digits_step True n = [digit_char n]"
| "digits_step False n = digits_step (n div 10 < 10) (n div 10) @ [digit_char (n mod 10)]"
  by pat_completeness auto
termination
  by (relation "measure (\<lambda>(single, n). if single then 0 else Suc (nat n))") auto

definition digits :: "int \<Rightarrow> string" where
  "digits n = digits_step (n < 10) n"

text \<open>
  The \<open>,\<close> option of the format mini-language: a comma before every group of three
  digits, counted from the right.
\<close>

fun group3_rev :: "string \<Rightarrow> string" where
  "group3_rev (a # b # c # d # ds) = a # b # c # CHR '','' # group3_rev (d # ds)"
| "group3_rev ds = ds"

definition group3 :: "string \<Rightarrow> string" where
  "group3 ds = rev (group3_rev (rev ds))"

definition zero_pad :: "nat \<Rightarrow> string \<Rightarrow> string" where
  "zero_pad p ds = replicate (p - length ds) CHR ''0'' @ ds"

text \<open>
  A numeric cell is a \<open>float64\<close>: a finite value, given by the rational number it
  stands for (\<open>Num 0\<close> is the positive zero), the negative zero, an infinity, or \<open>NaN\<close>,
  which is also how pandas marks a missing cell.
\<close>

datatype float64 = Num rat | NegZero | PosInf | NegInf | NaN

text \<open>
  Formatting a float with \<open>.pf\<close> rounds its exact value to \<open>p\<close> decimals, ties to
  even, and keeps its sign.
\<close>

definition round_half_even :: "rat \<Rightarrow> int" where
  "round_half_even x = (let f = \<lfloor>x\<rfloor>; d = x - of_int f in
       if d < 1/2 then f else if 1/2 < d then f + 1 else if even f then f else f + 1)"

definition format_finite :: "nat \<Rightarrow> bool \<Rightarrow> rat \<Rightarrow> string" where
  "format_finite p negative magnitude =
     (let n = round_half_even (magnitude * 10 ^ p);
          ip = n div 10 ^ p;
          fp = n mod 10 ^ p
      in (if negative then ''-'' else []) @ group3 (digits ip) @
         (if p = 0 then [] else ''.'' @ zero_pad p (digits fp)))"

text \<open>\<open>f"{x:,.pf}"\<close>\<close>

fun format_comma_f :: "nat \<Rightarrow> float64 \<Rightarrow> string" where
  "format_comma_f p (Num x) = format_finite p (x < 0) \<bar>x\<bar>"
| "format_comma_f p NegZero = format_finite p True 0"
| "format_comma_f p PosInf = ''inf''"
| "format_comma_f p NegInf = ''-inf''"
| "format_comma_f p NaN = ''nan''"

text \<open>
  The order of floats that are not \<open>NaN\<close>, as a key: the two zeros are equal, the
  infinities are the ends.
\<close>

fun float_key :: "float64 \<Rightarrow> int \<times> rat" where
  "float_key (Num x) = (0, x)"
| "float_key NegZero = (0, 0)"
| "float_key PosInf = (1, 0)"
| "float_key NegInf = (- 1, 0)"
| "float_key NaN = (2, 0)"

section \<open>The two tables\<close>

text \<open>
  One row of \<open>holdings.csv\<close> and one row of \<open>trades.csv\<close>, with the columns that
  \<open>DataChatbot\<close> reads. A text cell is a string or missing (\<open>None\<close>); a numeric
  cell, after \<open>pd.to_numeric(errors='coerce')\<close>, is a float, \<open>NaN\<close> when missing.
  A table is the list of its rows. The tables modelled are those with all of these
  columns, whose text columns \<open>read_csv\<close> reads as text or as all missing (a text
  column whose every cell is a number or a truth value is read as numbers, and is not
  a table of this model).
\<close>

record holding =
  h_ShortName :: "string option"
  h_PortfolioName :: "string option"
  h_SecName :: "string option"
  h_SecurityTypeName :: "string option"
  h_CustodianName :: "string option"
  h_Qty :: float64
  h_MV_Base :: float64
  h_PL_QTD :: float64
  h_PL_MTD :: float64
  h_PL_YTD :: float64

record trade =
  t_PortfolioName :: "string option"
  t_CustodianName :: "string option"
  t_Counterparty :: "string option"
  t_TradeTypeName :: "string option"

text \<open>
  \<open>__init__\<close> sets both attributes to \<open>None\<close>, and \<open>load_data\<close> leaves them so when
  reading a file fails: a table is absent (\<open>None\<close>) or loaded (possibly with no rows).
\<close>

record DataChatbot =
  holdings_df :: "holding list option"
  trades_df :: "trade list option"

text \<open>The exceptions that \<open>process_question\<close> can let escape.\<close>

datatype error =
    TypeError       \<comment> \<open>subscripting or measuring \<open>None\<close>; joining a non-string\<close>
  | AttributeError  \<comment> \<open>an attribute of \<open>None\<close>; \<open>.str\<close> on a column that holds no string\<close>
  | ReError         \<comment> \<open>\<open>re.error\<close>: the pattern given to \<open>str.contains\<close> does not compile\<close>

section \<open>Methods as actions on the object\<close>

text \<open>
  A method of \<open>DataChatbot\<close> is run on the object and gives a value or raises, and it
  leaves the object in some state: it is a function from the object before the call
  to the outcome and the object after the call.
\<close>

type_synonym 'a action = "DataChatbot \<Rightarrow> (error + 'a) \<times> DataChatbot"

definition returns :: "'a \<Rightarrow> 'a action" where
  "returns x = (\<lambda>self. (Inr x, self))"

definition raises :: "error \<Rightarrow> 'a action" where
  "raises e = (\<lambda>self. (Inl e, self))"

text \<open>One statement after another: an exception ends the method.\<close>

definition and_then :: "'a action \<Rightarrow> ('a \<Rightarrow> 'b action) \<Rightarrow> 'b action" where
  "and_then m f = (\<lambda>self. case m self of (Inl e, self') \<Rightarrow> (Inl e, self') | (Inr x, self') \<Rightarrow> f x self')"

text \<open>A computation on values, which reads nothing of the object, as an action.\<close>

definition lift :: "error + 'a \<Rightarrow> 'a action" where
  "lift r = (\<lambda>self. (r, self))"

text \<open>The same sequencing for computations on values.\<close>

definition bind_result :: "error + 'a \<Rightarrow> ('a \<Rightarrow> error + 'b) \<Rightarrow> error + 'b" where
  "bind_result r f = (case r of Inl e \<Rightarrow> Inl e | Inr x \<Rightarrow> f x)"

text \<open>
  Reading \<open>self.holdings_df\<close> or \<open>self.trades_df\<close> for use: on \<open>None\<close> the use raises,
  \<open>TypeError\<close> for a subscript or \<open>len\<close>, \<open>AttributeError\<close> for a method call.
\<close>

definition holdings :: "error \<Rightarrow> holding list action" where
  "holdings on_none = (\<lambda>self. (case holdings_df self of None \<Rightarrow> Inl on_none | Some h \<Rightarrow> Inr h, self))"

definition trades :: "error \<Rightarrow> trade list action" where
  "trades on_none = (\<lambda>self. (case trades_df self of None \<Rightarrow> Inl on_none | Some t \<Rightarrow> Inr t, self))"

section \<open>The platform\<close>

text \<open>
  What the source leaves to the Python runtime, to numpy and to pandas, and what is
  not determined by the text of the program, is a parameter of the model:
  \<^item> \<open>set_iter\<close>: the order in which a \<open>set\<close> of strings is iterated, given its elements
    in insertion order (it depends on the string hashes of the process);
  \<^item> \<open>re_compile\<close>: \<open>re.compile\<close> on a pattern that contains a special character of the
    regular-expression syntax: an error, or the compiled pattern's \<open>search(s) is not None\<close>;
  \<^item> \<open>unicode_lower\<close>: \<open>str.lower()\<close> on a string with a character outside ASCII;
  \<^item> \<open>series_sum\<close> and \<open>group_sum\<close>: the float64 sum of a non-empty column by
    \<open>Series.sum()\<close> and of a group by \<open>groupby(...).sum()\<close>, missing cells skipped; the
    result depends on the order and the rounding of the additions;
  \<^item> \<open>quicksort_values\<close> and \<open>quicksort_counts\<close>: \<open>sort_values\<close> (ascending or not) of
    the sums per fund, and the order of \<open>value_counts\<close>; quicksort fixes the order of
    different values, not the order of equal ones;
  \<^item> \<open>sorted_with_nan\<close>: Python's \<open>sorted\<close> by decreasing value when a value is \<open>NaN\<close>.
\<close>

record platform =
  set_iter :: "string list \<Rightarrow> string list"
  re_compile :: "string \<Rightarrow> error + (string \<Rightarrow> bool)"
  unicode_lower :: "string \<Rightarrow> string"
  series_sum :: "float64 list \<Rightarrow> float64"
  group_sum :: "float64 list \<Rightarrow> float64"
  quicksort_values :: "bool \<Rightarrow> (string \<times> float64) list \<Rightarrow> (string \<times> float64) list"
  quicksort_counts :: "(string \<times> nat) list \<Rightarrow> (string \<times> nat) list"
  sorted_with_nan :: "(string \<times> float64) list \<Rightarrow> (string \<times> float64) list"

text \<open>\<open>s.lower()\<close>\<close>

definition lower :: "platform \<Rightarrow> string \<Rightarrow> string" where
  "lower pf s = (if is_ascii s then ascii_lower s else unicode_lower pf s)"

section \<open>The pandas operations used\<close>

text \<open>\<open>Series.dropna()\<close>\<close>

fun dropna :: "'a option list \<Rightarrow> 'a list" where
  "dropna [] = []"
| "dropna (None # xs) = dropna xs"
| "dropna (Some x # xs) = x # dropna xs"

text \<open>\<open>Series.unique()\<close>: the distinct values in order of first appearance.\<close>

fun unique_from :: "'a list \<Rightarrow> 'a list \<Rightarrow> 'a list" where
  "unique_from seen [] = []"
| "unique_from seen (x # xs) =
     (if x \<in> set seen then unique_from seen xs else x # unique_from (x # seen) xs)"

definition unique :: "'a list \<Rightarrow> 'a list" where
  "unique xs = unique_from [] xs"

text \<open>
  A Python \<open>set\<close> of strings is modelled by the duplicate-free list of its elements;
  \<open>a | b\<close> is the union.
\<close>

definition set_union :: "string list \<Rightarrow> string list \<Rightarrow> string list" where
  "set_union a b = a @ filter (\<lambda>x. x \<notin> set a) b"

text \<open>\<open>Series.sum()\<close>: the sum of an empty column is 0.\<close>

definition sum_skipna :: "platform \<Rightarrow> float64 list \<Rightarrow> float64" where
  "sum_skipna pf col = (if col = [] then Num 0 else series_sum pf col)"

text \<open>\<open>df[mask]\<close> and \<open>mask.sum()\<close>\<close>

definition select :: "'a list \<Rightarrow> bool list \<Rightarrow> 'a list" where
  "select rows m = map fst (filter snd (zip rows m))"

definition mask_sum :: "bool list \<Rightarrow> nat" where
  "mask_sum m = length (filter id m)"

text \<open>
  The \<open>.str\<close> accessor of a column. A text column read from the file holds strings and
  missing cells; when it has rows and every cell is missing, pandas reads it as a
  column of floats and the accessor raises \<open>AttributeError\<close>.
\<close>

definition str_accessor :: "string option list \<Rightarrow> error + string option list" where
  "str_accessor col =
     (if col \<noteq> [] \<and> list_all (\<lambda>cell. cell = None) col then Inl AttributeError else Inr col)"

text \<open>\<open>col.str.lower()\<close>\<close>

definition str_lower :: "platform \<Rightarrow> string option list \<Rightarrow> error + string option list" where
  "str_lower pf col = bind_result (str_accessor col) (\<lambda>cells. Inr (map (map_option (lower pf)) cells))"

text \<open>
  \<open>lowered.str.contains(pat, na=False)\<close> has \<open>regex=True\<close> by default: \<open>pat\<close> is compiled
  as a regular expression, once, before any row is looked at, and a row matches when
  the pattern is found somewhere in its cell; a missing cell does not match. A pattern
  with none of the special characters \<open>. ^ $ * + ? { } [ ] \ | ( )\<close> matches exactly
  where it occurs as a substring. Any other pattern is left to \<open>re_compile\<close>.
\<close>

definition regex_special :: "char \<Rightarrow> bool" where
  "regex_special c = (c \<in> set (''.^$*+?{}[]|()'' @ [CHR 0x5C]))"

definition plain_pattern :: "string \<Rightarrow> bool" where
  "plain_pattern pat = (\<not> list_ex regex_special pat)"

definition contains_matcher :: "platform \<Rightarrow> string \<Rightarrow> error + (string \<Rightarrow> bool)" where
  "contains_matcher pf pat = (if plain_pattern pat then Inr (str_in pat) else re_compile pf pat)"

definition na_false :: "(string \<Rightarrow> bool) \<Rightarrow> string option \<Rightarrow> bool" where
  "na_false m cell = (case cell of None \<Rightarrow> False | Some s \<Rightarrow> m s)"

definition str_contains :: "platform \<Rightarrow> string \<Rightarrow> string option list \<Rightarrow> error + bool list" where
  "str_contains pf pat lowered =
     bind_result (contains_matcher pf pat) (\<lambda>m. Inr (map (na_false m) lowered))"

text \<open>\<open>col.str.lower().str.contains(name.lower(), na=False)\<close>, in the order of evaluation.\<close>

definition lower_contains :: "platform \<Rightarrow> string \<Rightarrow> string option list \<Rightarrow> error + bool list" where
  "lower_contains pf name col =
     bind_result (str_lower pf col) (\<lambda>lowered. str_contains pf (lower pf name) lowered)"

text \<open>
  \<open>df.groupby('ShortName')[col].sum()\<close>: one entry per distinct non-missing short
  name, in sorted order of the names, with the sum of the column over the group.
\<close>

definition groupby_sum :: "platform \<Rightarrow> (holding \<Rightarrow> float64) \<Rightarrow> holding list \<Rightarrow> (string \<times> float64) list" where
  "groupby_sum pf col h =
     map (\<lambda>k. (k, group_sum pf (map col (filter (\<lambda>r. h_ShortName r = Some k) h))))
         (sort (unique (dropna (map h_ShortName h))))"

text \<open>\<open>totals.sort_values(ascending=...)\<close>\<close>

definition sort_values :: "platform \<Rightarrow> bool \<Rightarrow> (string \<times> float64) list \<Rightarrow> (string \<times> float64) list" where
  "sort_values pf ascending totals =
     (if totals = [] then [] else quicksort_values pf ascending totals)"

text \<open>
  \<open>sorted(d.items(), key=lambda x: x[1], reverse=True)\<close>: a stable sort by
  decreasing value, entries with equal values keeping their order.
\<close>

definition negated :: "int \<times> rat \<Rightarrow> int \<times> rat" where
  "negated k = (- fst k, - snd k)"

definition sorted_by_value_desc :: "platform \<Rightarrow> (string \<times> float64) list \<Rightarrow> (string \<times> float64) list" where
  "sorted_by_value_desc pf items =
     (if list_ex (\<lambda>kv. snd kv = NaN) items then sorted_with_nan pf items
      else sort_key (\<lambda>kv. negated (float_key (snd kv))) items)"

text \<open>
  \<open>Series.value_counts()\<close>: the non-missing values with their number of occurrences,
  most frequent first.
\<close>

definition value_counts :: "platform \<Rightarrow> string option list \<Rightarrow> (string \<times> nat) list" where
  "value_counts pf col =
     (if dropna col = [] then []
      else quicksort_counts pf (map (\<lambda>v. (v, count_list (dropna col) v)) (unique (dropna col))))"

section \<open>The queries of \<open>DataChatbot\<close>\<close>

definition get_all_funds :: "string list action" where
  "get_all_funds =
     and_then (holdings TypeError) (\<lambda>h.
     and_then (trades TypeError) (\<lambda>t.
       returns (set_union
                  (set_union (unique (dropna (map h_ShortName h)))
                             (unique (dropna (map h_PortfolioName h))))
                  (unique (dropna (map t_PortfolioName t))))))"

text \<open>
  The mask that every fund-scoped query on the holdings builds: the lowercased short
  name or the lowercased portfolio name contains the lowercased fund name.
\<close>

definition fund_mask :: "platform \<Rightarrow> string \<Rightarrow> holding list \<Rightarrow> error + bool list" where
  "fund_mask pf fund_name h =
     bind_result (lower_contains pf fund_name (map h_ShortName h)) (\<lambda>m1.
     bind_result (lower_contains pf fund_name (map h_PortfolioName h)) (\<lambda>m2.
       Inr (map2 (\<or>) m1 m2)))"

definition trades_mask :: "platform \<Rightarrow> string \<Rightarrow> trade list \<Rightarrow> error + bool list" where
  "trades_mask pf fund_name t = lower_contains pf fund_name (map t_PortfolioName t)"

definition get_total_holdings_for_fund :: "platform \<Rightarrow> string \<Rightarrow> nat option action" where
  "get_total_holdings_for_fund pf fund_name =
     and_then (holdings TypeError) (\<lambda>h.
     and_then (lift (fund_mask pf fund_name h)) (\<lambda>m.
       returns (if mask_sum m > 0 then Some (mask_sum m) else None)))"

definition get_total_trades_for_fund :: "platform \<Rightarrow> string \<Rightarrow> nat option action" where
  "get_total_trades_for_fund pf fund_name =
     and_then (trades TypeError) (\<lambda>t.
     and_then (lift (trades_mask pf fund_name t)) (\<lambda>m.
       returns (if mask_sum m > 0 then Some (mask_sum m) else None)))"

definition get_total_holdings :: "nat action" where
  "get_total_holdings = and_then (holdings TypeError) (\<lambda>h. returns (length h))"

definition get_total_trades :: "nat action" where
  "get_total_trades = and_then (trades TypeError) (\<lambda>t. returns (length t))"

text \<open>\<open>filtered = self.holdings_df[mask]\<close>\<close>

definition fund_rows :: "platform \<Rightarrow> string \<Rightarrow> holding list action" where
  "fund_rows pf fund_name =
     and_then (holdings TypeError) (\<lambda>h.
     and_then (lift (fund_mask pf fund_name h)) (\<lambda>m. returns (select h m)))"

text \<open>
  \<open>get_fund_pnl_ytd\<close>, \<open>get_pnl_mtd\<close>, \<open>get_pnl_qtd\<close>, \<open>get_fund_market_value\<close> and
  \<open>get_total_quantity_for_fund\<close> have one body, up to the column summed: the sum over
  the fund's rows, or \<open>None\<close> when there are none. (This is the branch
  \<open>if fund_name:\<close> of the P&L methods; \<open>process_question\<close> passes them a name only
  when the name is not empty.)
\<close>

definition fund_sum :: "(holding \<Rightarrow> float64) \<Rightarrow> platform \<Rightarrow> string \<Rightarrow> float64 option action" where
  "fund_sum col pf fund_name =
     and_then (fund_rows pf fund_name) (\<lambda>filtered.
       returns (if length filtered > 0 then Some (sum_skipna pf (map col filtered)) else None))"

definition get_fund_pnl_ytd :: "platform \<Rightarrow> string \<Rightarrow> float64 option action" where
  "get_fund_pnl_ytd = fund_sum h_PL_YTD"

definition get_pnl_mtd :: "platform \<Rightarrow> string \<Rightarrow> float64 option action" where
  "get_pnl_mtd = fund_sum h_PL_MTD"

definition get_pnl_qtd :: "platform \<Rightarrow> string \<Rightarrow> float64 option action" where
  "get_pnl_qtd = fund_sum h_PL_QTD"

definition get_fund_market_value :: "platform \<Rightarrow> string \<Rightarrow> float64 option action" where
  "get_fund_market_value = fund_sum h_MV_Base"

definition get_total_quantity_for_fund :: "platform \<Rightarrow> string \<Rightarrow> float64 option action" where
  "get_total_quantity_for_fund = fund_sum h_Qty"

text \<open>
  The same three P&L methods called without a fund name: the sums per short name, as
  a dictionary in the order of \<open>groupby\<close>.
\<close>

definition all_funds_sum :: "(holding \<Rightarrow> float64) \<Rightarrow> platform \<Rightarrow> (string \<times> float64) list action" where
  "all_funds_sum col pf = and_then (holdings AttributeError) (\<lambda>h. returns (groupby_sum pf col h))"

definition get_fund_performance_ranking :: "platform \<Rightarrow> (string \<times> float64) list action" where
  "get_fund_performance_ranking pf =
     and_then (holdings AttributeError) (\<lambda>h.
       returns (sort_values pf False (groupby_sum pf h_PL_YTD h)))"

definition get_best_performing_funds :: "platform \<Rightarrow> nat \<Rightarrow> (string \<times> float64) list action" where
  "get_best_performing_funds pf n =
     and_then (holdings AttributeError) (\<lambda>h.
       returns (take n (sort_values pf False (groupby_sum pf h_PL_YTD h))))"

definition get_worst_performing_funds :: "platform \<Rightarrow> nat \<Rightarrow> (string \<times> float64) list action" where
  "get_worst_performing_funds pf n =
     and_then (holdings AttributeError) (\<lambda>h.
       returns (take n (sort_values pf True (groupby_sum pf h_PL_YTD h))))"

text \<open>
  \<open>filtered[col].unique().tolist()\<close>: missing values are not dropped here, so the list
  may hold a \<open>NaN\<close>.
\<close>

definition fund_unique ::
  "(holding \<Rightarrow> string option) \<Rightarrow> platform \<Rightarrow> string \<Rightarrow> string option list option action" where
  "fund_unique col pf fund_name =
     and_then (fund_rows pf fund_name) (\<lambda>filtered.
       returns (if length filtered > 0 then Some (unique (map col filtered)) else None))"

definition get_securities_for_fund :: "platform \<Rightarrow> string \<Rightarrow> string option list option action" where
  "get_securities_for_fund = fund_unique h_SecName"

definition get_security_types_for_fund :: "platform \<Rightarrow> string \<Rightarrow> string option list option action" where
  "get_security_types_for_fund = fund_unique h_SecurityTypeName"

definition get_trade_types_summary :: "platform \<Rightarrow> (string \<times> nat) list action" where
  "get_trade_types_summary pf =
     and_then (trades TypeError) (\<lambda>t. returns (value_counts pf (map t_TradeTypeName t)))"

definition get_trades_by_type :: "platform \<Rightarrow> string \<Rightarrow> nat action" where
  "get_trades_by_type pf trade_type =
     and_then (trades TypeError) (\<lambda>t.
     and_then (lift (str_lower pf (map t_TradeTypeName t))) (\<lambda>lowered.
       returns (mask_sum (map (\<lambda>cell. cell = Some (lower pf trade_type)) lowered))))"

definition get_custodians :: "string list action" where
  "get_custodians =
     and_then (holdings TypeError) (\<lambda>h.
     and_then (trades TypeError) (\<lambda>t.
       returns (set_union (unique (dropna (map h_CustodianName h)))
                          (unique (dropna (map t_CustodianName t))))))"

definition get_counterparties :: "string list action" where
  "get_counterparties = and_then (trades TypeError) (\<lambda>t. returns (unique (dropna (map t_Counterparty t))))"

definition get_security_types :: "string list action" where
  "get_security_types =
     and_then (holdings TypeError) (\<lambda>h. returns (unique (dropna (map h_SecurityTypeName h))))"

definition get_holdings_by_security_type :: "platform \<Rightarrow> string \<Rightarrow> nat action" where
  "get_holdings_by_security_type pf sec_type =
     and_then (holdings TypeError) (\<lambda>h.
     and_then (lift (lower_contains pf sec_type (map h_SecurityTypeName h))) (\<lambda>m.
       returns (mask_sum m)))"

text \<open>
  \<open>extract_fund_name\<close>: the first fund, in the iteration order of the set, whose
  lowercased name occurs in the lowercased question; failing that, the first fund with
  a word of more than three characters that occurs there.
\<close>

definition extract_fund_name :: "platform \<Rightarrow> string \<Rightarrow> string option action" where
  "extract_fund_name pf question =
     and_then get_all_funds (\<lambda>all_funds.
       let question_lower = lower pf question;
           funds = set_iter pf all_funds
       in case find (\<lambda>fund. str_in (lower pf fund) question_lower) funds of
            Some fund \<Rightarrow> returns (Some fund)
          | None \<Rightarrow>
              returns (find (\<lambda>fund. list_ex (\<lambda>word. len word > 3 \<and> str_in word question_lower)
                                            (split (lower pf fund))) funds))"

text \<open>\<open>if fund_name:\<close> holds for a name that is neither \<open>None\<close> nor the empty string.\<close>

definition given :: "string option \<Rightarrow> string option" where
  "given fund_name = (case fund_name of None \<Rightarrow> None | Some n \<Rightarrow> if n = [] then None else Some n)"

section \<open>The answers\<close>

definition not_found :: string where
  "not_found = ''Sorry can not find the answer''"

definition not_found_for_fund :: "string \<Rightarrow> string" where
  "not_found_for_fund fund_name =
     ''Sorry can not find the answer for fund '' @ [CHR 0x27] @ fund_name @ [CHR 0x27]"

text \<open>\<open>"\n".join(f"  - {x}" for x in xs)\<close>\<close>

definition dash_lines :: "string list \<Rightarrow> string" where
  "dash_lines xs = join ''\<newline>'' (map (\<lambda>x. ''  - '' @ x) xs)"

text \<open>\<open>f"${x:,.2f}"\<close>\<close>

definition money :: "float64 \<Rightarrow> string" where
  "money x = ''$'' @ format_comma_f 2 x"

text \<open>The lines \<open>f"  {i}. {fund}: ${pnl:,.2f}\n"\<close> of a ranking, numbered from 1.\<close>

definition ranking_line :: "int \<times> string \<times> float64 \<Rightarrow> string" where
  "ranking_line e = ''  '' @ digits (fst e) @ ''. '' @ fst (snd e) @ '': '' @ money (snd (snd e)) @ ''\<newline>''"

definition ranking_lines :: "(string \<times> float64) list \<Rightarrow> string" where
  "ranking_lines xs = concat (map ranking_line (zip [1..int (length xs)] xs))"

text \<open>The lines \<open>f"  - {fund}: ${pnl:,.2f}\n"\<close> and \<open>f"  - {trade_type}: {count}\n"\<close>.\<close>

definition pnl_line :: "string \<times> float64 \<Rightarrow> string" where
  "pnl_line e = ''  - '' @ fst e @ '': '' @ money (snd e) @ ''\<newline>''"

definition count_line :: "string \<times> nat \<Rightarrow> string" where
  "count_line e = ''  - '' @ fst e @ '': '' @ digits (int (snd e)) @ ''\<newline>''"

text \<open>\<open>f"{x}"\<close> of a cell: a missing value is the float \<open>nan\<close>.\<close>

definition format_cell :: "string option \<Rightarrow> string" where
  "format_cell cell = (case cell of None \<Rightarrow> ''nan'' | Some s \<Rightarrow> s)"

text \<open>\<open>sep.join(cells)\<close> raises \<open>TypeError\<close> on an item that is not a string.\<close>

definition join_cells :: "string \<Rightarrow> string option list \<Rightarrow> error + string" where
  "join_cells sep cells =
     (if list_ex (\<lambda>cell. cell = None) cells then Inl TypeError else Inr (join sep (dropna cells)))"

text \<open>The help text; its five emoji are written as their UTF-8 bytes.\<close>

definition help_text :: string where
  \<open>help_text =
     ''I can help you with questions about holdings and trades data. Here are some examples:\<newline>'' @
     ''\<newline>'' @
     [CHR 0xF0, CHR 0x9F, CHR 0x93, CHR 0x8A] @ '' Holdings Questions:\<newline>'' @
     ''  - "Total number of holdings for Garfield"\<newline>'' @
     ''  - "How many holdings are there?"\<newline>'' @
     ''  - "What securities does Heather hold?"\<newline>'' @
     ''  - "What are the security types for MNC Inv?"\<newline>'' @
     ''  - "Number of equity holdings"\<newline>'' @
     ''\<newline>'' @
     [CHR 0xF0, CHR 0x9F, CHR 0x93, CHR 0x88] @ '' Trades Questions:\<newline>'' @
     ''  - "Total number of trades for HoldCo 1"\<newline>'' @
     ''  - "How many trades are there?"\<newline>'' @
     ''  - "Trade types summary"\<newline>'' @
     ''  - "How many buy trades?"\<newline>'' @
     ''  - "How many sell trades?"\<newline>'' @
     ''\<newline>'' @
     [CHR 0xF0, CHR 0x9F, CHR 0x92, CHR 0xB0] @ '' Performance Questions:\<newline>'' @
     ''  - "Which funds performed better?"\<newline>'' @
     ''  - "Best performing funds"\<newline>'' @
     ''  - "Worst performing funds"\<newline>'' @
     ''  - "YTD P&L for Ytum"\<newline>'' @
     ''  - "MTD P&L for all funds"\<newline>'' @
     ''  - "Fund performance ranking"\<newline>'' @
     ''\<newline>'' @
     [CHR 0xF0, CHR 0x9F, CHR 0x92, CHR 0xB5] @ '' Value Questions:\<newline>'' @
     ''  - "Market value for Garfield"\<newline>'' @
     ''  - "Total market value"\<newline>'' @
     ''\<newline>'' @
     [CHR 0xF0, CHR 0x9F, CHR 0x8F, CHR 0xA2] @ '' Other Questions:\<newline>'' @
     ''  - "List all funds"\<newline>'' @
     ''  - "What are the custodians?"\<newline>'' @
     ''  - "What are the counterparties?"\<newline>''\<close>

definition answer_list_funds :: "string action" where
  "answer_list_funds =
     and_then get_all_funds (\<lambda>funds.
       if funds \<noteq> [] then returns (''Available funds/portfolios:\<newline>'' @ dash_lines (sort funds))
       else returns not_found)"

definition answer_total_holdings :: "platform \<Rightarrow> string \<Rightarrow> string action" where
  "answer_total_holdings pf question =
     and_then (extract_fund_name pf question) (\<lambda>fund_name.
       case given fund_name of
         Some name \<Rightarrow>
           and_then (get_total_holdings_for_fund pf name) (\<lambda>count.
             case count of
               None \<Rightarrow> returns (not_found_for_fund name)
             | Some c \<Rightarrow>
                 if c = 0 then returns (not_found_for_fund name)
                 else returns (''Total number of holdings for '' @ name @ '': '' @ digits (int c)))
       | None \<Rightarrow>
           and_then get_total_holdings (\<lambda>n.
             returns (''Total number of holdings across all funds: '' @ digits (int n))))"

definition answer_total_trades :: "platform \<Rightarrow> string \<Rightarrow> string action" where
  "answer_total_trades pf question =
     and_then (extract_fund_name pf question) (\<lambda>fund_name.
       case given fund_name of
         Some name \<Rightarrow>
           and_then (get_total_trades_for_fund pf name) (\<lambda>count.
             case count of
               None \<Rightarrow> returns (not_found_for_fund name)
             | Some c \<Rightarrow>
                 if c = 0 then returns (not_found_for_fund name)
                 else returns (''Total number of trades for '' @ name @ '': '' @ digits (int c)))
       | None \<Rightarrow>
           and_then get_total_trades (\<lambda>n.
             returns (''Total number of trades across all funds: '' @ digits (int n))))"

text \<open>The three ranking answers differ in the query and in the heading.\<close>

definition answer_ranking :: "string \<Rightarrow> (string \<times> float64) list action \<Rightarrow> string action" where
  "answer_ranking heading query =
     and_then query (\<lambda>ranking.
       if length ranking > 0 then returns (heading @ ranking_lines ranking) else returns not_found)"

definition answer_best :: "platform \<Rightarrow> string action" where
  "answer_best pf =
     answer_ranking ''Best performing funds by YTD P&L:\<newline>'' (get_best_performing_funds pf 10)"

definition answer_worst :: "platform \<Rightarrow> string action" where
  "answer_worst pf =
     answer_ranking ''Worst performing funds by YTD P&L:\<newline>'' (get_worst_performing_funds pf 10)"

definition answer_performance_ranking :: "platform \<Rightarrow> string action" where
  "answer_performance_ranking pf =
     answer_ranking ''Fund Performance Ranking by YTD P&L:\<newline>'' (get_fund_performance_ranking pf)"

text \<open>
  The YTD, MTD and QTD answers have one body, up to the period's name and column:
  the fund's sum when a fund name is extracted, all funds by decreasing sum otherwise.
\<close>

definition answer_pnl ::
  "string \<Rightarrow> (platform \<Rightarrow> string \<Rightarrow> float64 option action) \<Rightarrow>
   (platform \<Rightarrow> (string \<times> float64) list action) \<Rightarrow>
   platform \<Rightarrow> string \<Rightarrow> string action" where
  "answer_pnl period get_for_fund get_for_all pf question =
     and_then (extract_fund_name pf question) (\<lambda>fund_name.
       case given fund_name of
         Some name \<Rightarrow>
           and_then (get_for_fund pf name) (\<lambda>pnl.
             case pnl of
               Some v \<Rightarrow> returns (period @ '' P&L for '' @ name @ '': '' @ money v)
             | None \<Rightarrow> returns (not_found_for_fund name))
       | None \<Rightarrow>
           and_then (get_for_all pf) (\<lambda>all_pnl.
             if all_pnl \<noteq> []
             then returns (period @ '' P&L for all funds:\<newline>'' @
                           concat (map pnl_line (sorted_by_value_desc pf all_pnl)))
             else returns not_found))"

definition answer_pnl_ytd :: "platform \<Rightarrow> string \<Rightarrow> string action" where
  "answer_pnl_ytd = answer_pnl ''YTD'' get_fund_pnl_ytd (all_funds_sum h_PL_YTD)"

definition answer_pnl_mtd :: "platform \<Rightarrow> string \<Rightarrow> string action" where
  "answer_pnl_mtd = answer_pnl ''MTD'' get_pnl_mtd (all_funds_sum h_PL_MTD)"

definition answer_pnl_qtd :: "platform \<Rightarrow> string \<Rightarrow> string action" where
  "answer_pnl_qtd = answer_pnl ''QTD'' get_pnl_qtd (all_funds_sum h_PL_QTD)"

definition answer_securities :: "platform \<Rightarrow> string \<Rightarrow> string action" where
  "answer_securities pf question =
     and_then (extract_fund_name pf question) (\<lambda>fund_name.
       case given fund_name of
         Some name \<Rightarrow>
           and_then (get_securities_for_fund pf name) (\<lambda>securities.
             case securities of
               None \<Rightarrow> returns (not_found_for_fund name)
             | Some secs \<Rightarrow>
                 if secs = [] then returns (not_found_for_fund name)
                 else returns (''Securities held by '' @ name @ '':\<newline>'' @
                               dash_lines (map format_cell secs)))
       | None \<Rightarrow> returns ''Please specify a fund name.'')"

definition answer_security_types :: "platform \<Rightarrow> string \<Rightarrow> string action" where
  "answer_security_types pf question =
     and_then (extract_fund_name pf question) (\<lambda>fund_name.
       case given fund_name of
         Some name \<Rightarrow>
           and_then (get_security_types_for_fund pf name) (\<lambda>types.
             case types of
               None \<Rightarrow> returns (not_found_for_fund name)
             | Some ts \<Rightarrow>
                 if ts = [] then returns (not_found_for_fund name)
                 else and_then (lift (join_cells '', '' ts)) (\<lambda>joined.
                        returns (''Security types for '' @ name @ '': '' @ joined)))
       | None \<Rightarrow>
           and_then get_security_types (\<lambda>types.
             if types \<noteq> [] then returns (''Available security types: '' @ join '', '' types)
             else returns not_found))"

definition answer_trade_types :: "platform \<Rightarrow> string action" where
  "answer_trade_types pf =
     and_then (get_trade_types_summary pf) (\<lambda>summary.
       if summary \<noteq> [] then returns (''Trade Types Summary:\<newline>'' @ concat (map count_line summary))
       else returns not_found)"

definition answer_buys :: "platform \<Rightarrow> string action" where
  "answer_buys pf =
     and_then (get_trades_by_type pf ''buy'') (\<lambda>count.
       if count > 0 then returns (''Total number of Buy trades: '' @ digits (int count))
       else returns not_found)"

definition answer_sells :: "platform \<Rightarrow> string action" where
  "answer_sells pf =
     and_then (get_trades_by_type pf ''sell'') (\<lambda>count.
       if count > 0 then returns (''Total number of Sell trades: '' @ digits (int count))
       else returns not_found)"

definition answer_market_value :: "platform \<Rightarrow> string \<Rightarrow> string action" where
  "answer_market_value pf question =
     and_then (extract_fund_name pf question) (\<lambda>fund_name.
       case given fund_name of
         Some name \<Rightarrow>
           and_then (get_fund_market_value pf name) (\<lambda>mv.
             case mv of
               Some v \<Rightarrow> returns (''Total market value for '' @ name @ '': '' @ money v)
             | None \<Rightarrow> returns (not_found_for_fund name))
       | None \<Rightarrow>
           and_then (holdings TypeError) (\<lambda>h.
             returns (''Total market value across all funds: '' @
                      money (sum_skipna pf (map h_MV_Base h)))))"

definition answer_custodians :: "string action" where
  "answer_custodians =
     and_then get_custodians (\<lambda>custodians.
       if custodians \<noteq> [] then returns (''Custodians:\<newline>'' @ dash_lines (sort custodians))
       else returns not_found)"

definition answer_counterparties :: "string action" where
  "answer_counterparties =
     and_then get_counterparties (\<lambda>counterparties.
       if counterparties \<noteq> [] then returns (''Counterparties:\<newline>'' @ dash_lines (sort counterparties))
       else returns not_found)"

text \<open>
  The loop over the security types, in its fixed order: the first type that occurs in
  the question and has holdings is answered; when the loop ends, the sentinel.
\<close>

fun holdings_by_type_loop :: "platform \<Rightarrow> string \<Rightarrow> string list \<Rightarrow> string action" where
  "holdings_by_type_loop pf question_lower [] = returns not_found"
| "holdings_by_type_loop pf question_lower (sec_type # rest) =
     (if str_in (lower pf sec_type) question_lower
      then and_then (get_holdings_by_security_type pf sec_type) (\<lambda>count.
             if count > 0
             then returns (''Number of '' @ sec_type @ '' holdings: '' @ digits (int count))
             else holdings_by_type_loop pf question_lower rest)
      else holdings_by_type_loop pf question_lower rest)"

definition answer_holdings_by_type :: "platform \<Rightarrow> string \<Rightarrow> string action" where
  "answer_holdings_by_type pf question_lower =
     holdings_by_type_loop pf question_lower
       [''Equity'', ''Bond'', ''Option'', ''AssetBacked'', ''FX Forward'']"

definition answer_quantity :: "platform \<Rightarrow> string \<Rightarrow> string action" where
  "answer_quantity pf question =
     and_then (extract_fund_name pf question) (\<lambda>fund_name.
       case given fund_name of
         Some name \<Rightarrow>
           and_then (get_total_quantity_for_fund pf name) (\<lambda>qty.
             case qty of
               Some v \<Rightarrow> returns (''Total quantity for '' @ name @ '': '' @ format_comma_f 0 v)
             | None \<Rightarrow> returns (not_found_for_fund name))
       | None \<Rightarrow> returns ''Please specify a fund name for quantity information.'')"

section \<open>The ordered rules of \<open>process_question\<close>\<close>

text \<open>The trigger of each rule, a predicate on the stripped, lowercased question.\<close>

definition list_funds_trigger :: "string \<Rightarrow> bool" where
  "list_funds_trigger q = any_in [''list all funds'', ''all funds'', ''what funds'',
       ''which funds are there'', ''show funds'', ''available funds''] q"

definition total_holdings_trigger :: "string \<Rightarrow> bool" where
  "total_holdings_trigger q =
     ((str_in ''total'' q \<and> str_in ''holdings'' q) \<or> (str_in ''how many'' q \<and> str_in ''holdings'' q))"

definition total_trades_trigger :: "string \<Rightarrow> bool" where
  "total_trades_trigger q =
     ((str_in ''total'' q \<and> str_in ''trades'' q) \<or> (str_in ''how many'' q \<and> str_in ''trades'' q))"

definition best_trigger :: "string \<Rightarrow> bool" where
  "best_trigger q = any_in [''best performing'', ''top performing'', ''highest profit'',
       ''best fund'', ''top fund'', ''performed better'', ''which fund performed''] q"

definition worst_trigger :: "string \<Rightarrow> bool" where
  "worst_trigger q = any_in [''worst performing'', ''lowest profit'', ''worst fund'',
       ''poor performing'', ''lowest performing''] q"

definition ranking_trigger :: "string \<Rightarrow> bool" where
  "ranking_trigger q = any_in [''fund performance'', ''performance ranking'', ''rank funds'',
       ''compare funds''] q"

definition pnl_ytd_trigger :: "string \<Rightarrow> bool" where
  "pnl_ytd_trigger q = any_in [''ytd'', ''yearly'', ''year to date'', ''annual'',
       ''profit and loss'', ''pnl'', ''p&l'', ''profit'', ''loss''] q"

definition pnl_mtd_trigger :: "string \<Rightarrow> bool" where
  "pnl_mtd_trigger q = (str_in ''mtd'' q \<or> str_in ''month to date'' q)"

definition pnl_qtd_trigger :: "string \<Rightarrow> bool" where
  "pnl_qtd_trigger q = (str_in ''qtd'' q \<or> str_in ''quarter to date'' q)"

definition securities_trigger :: "string \<Rightarrow> bool" where
  "securities_trigger q = any_in [''securities'', ''what securities'', ''which securities'',
       ''holdings for''] q"

definition security_types_trigger :: "string \<Rightarrow> bool" where
  "security_types_trigger q = any_in [''security types'', ''asset types'', ''type of securities'',
       ''types of assets''] q"

definition trade_types_trigger :: "string \<Rightarrow> bool" where
  "trade_types_trigger q = any_in [''trade types'', ''buy and sell'', ''buys and sells'',
       ''trade summary''] q"

definition buys_trigger :: "string \<Rightarrow> bool" where
  "buys_trigger q =
     (str_in ''buy'' q \<and> (str_in ''how many'' q \<or> str_in ''number of'' q \<or> str_in ''total'' q))"

definition sells_trigger :: "string \<Rightarrow> bool" where
  "sells_trigger q =
     (str_in ''sell'' q \<and> (str_in ''how many'' q \<or> str_in ''number of'' q \<or> str_in ''total'' q))"

definition market_value_trigger :: "string \<Rightarrow> bool" where
  "market_value_trigger q = any_in [''market value'', ''total value'', ''mv'', ''aum''] q"

definition custodians_trigger :: "string \<Rightarrow> bool" where
  "custodians_trigger q = str_in ''custodian'' q"

definition counterparties_trigger :: "string \<Rightarrow> bool" where
  "counterparties_trigger q = str_in ''counterpart'' q"

definition holdings_by_type_trigger :: "platform \<Rightarrow> string \<Rightarrow> bool" where
  "holdings_by_type_trigger pf q =
     any_in (map (lower pf) [''equity'', ''bond'', ''option'', ''assetbacked'', ''fx forward'']) q"

definition quantity_trigger :: "string \<Rightarrow> bool" where
  "quantity_trigger q = (str_in ''quantity'' q \<or> str_in ''qty'' q)"

definition help_trigger :: "string \<Rightarrow> bool" where
  "help_trigger q = any_in [''help'', ''what can you'', ''commands'', ''examples''] q"

text \<open>
  \<open>process_question\<close>, statement by statement: the rules are tried in the order of
  the source and the body of the first rule whose trigger holds returns the answer.
  The outcome is the returned string, or the exception that escapes, with the object
  as the call leaves it.
\<close>

definition process_question :: "platform \<Rightarrow> string \<Rightarrow> string action" where
  "process_question pf question =
     (let question_lower = strip (lower pf question) in
      if question_lower = [] then returns ''Please enter a question.''
      else if list_funds_trigger question_lower then answer_list_funds
      else if total_holdings_trigger question_lower then answer_total_holdings pf question
      else if total_trades_trigger question_lower then answer_total_trades pf question
      else if best_trigger question_lower then answer_best pf
      else if worst_trigger question_lower then answer_worst pf
      else if ranking_trigger question_lower then answer_performance_ranking pf
      else if pnl_ytd_trigger question_lower then answer_pnl_ytd pf question
      else if pnl_mtd_trigger question_lower then answer_pnl_mtd pf question
      else if pnl_qtd_trigger question_lower then answer_pnl_qtd pf question
      else if securities_trigger question_lower then answer_securities pf question
      else if security_types_trigger question_lower then answer_security_types pf question
      else if trade_types_trigger question_lower then answer_trade_types pf
      else if buys_trigger question_lower then answer_buys pf
      else if sells_trigger question_lower then answer_sells pf
      else if market_value_trigger question_lower then answer_market_value pf question
      else if custodians_trigger question_lower then answer_custodians
      else if counterparties_trigger question_lower then answer_counterparties
      else if holdings_by_type_trigger pf question_lower then answer_holdings_by_type pf question_lower
      else if quantity_trigger question_lower then answer_quantity pf question
      else if help_trigger question_lower then returns help_text
      else returns not_found)"

subsection \<open>The rules as a classifier\<close>

text \<open>
  Every rule body returns on each of its paths, so the method is the choice of the
  first rule that fires followed by that rule's body. \<open>classify\<close> names the rule.
\<close>

datatype intent =
    ListFunds | TotalHoldings | TotalTrades | BestPerforming | WorstPerforming
  | PerformanceRanking | PnlYTD | PnlMTD | PnlQTD | Securities | SecurityTypes
  | TradeTypes | BuyCount | SellCount | MarketValue | Custodians | Counterparties
  | HoldingsByType | Quantity | Help | NoRule

definition classify :: "platform \<Rightarrow> string \<Rightarrow> intent" where
  "classify pf question_lower =
     (if list_funds_trigger question_lower then ListFunds
      else if total_holdings_trigger question_lower then TotalHoldings
      else if total_trades_trigger question_lower then TotalTrades
      else if best_trigger question_lower then BestPerforming
      else if worst_trigger question_lower then WorstPerforming
      else if ranking_trigger question_lower then PerformanceRanking
      else if pnl_ytd_trigger question_lower then PnlYTD
      else if pnl_mtd_trigger question_lower then PnlMTD
      else if pnl_qtd_trigger question_lower then PnlQTD
      else if securities_trigger question_lower then Securities
      else if security_types_trigger question_lower then SecurityTypes
      else if trade_types_trigger question_lower then TradeTypes
      else if buys_trigger question_lower then BuyCount
      else if sells_trigger question_lower then SellCount
      else if market_value_trigger question_lower then MarketValue
      else if custodians_trigger question_lower then Custodians
      else if counterparties_trigger question_lower then Counterparties
      else if holdings_by_type_trigger pf question_lower then HoldingsByType
      else if quantity_trigger question_lower then Quantity
      else if help_trigger question_lower then Help
      else NoRule)"

fun rule_body :: "intent \<Rightarrow> platform \<Rightarrow> string \<Rightarrow> string action" where
  "rule_body ListFunds pf question = answer_list_funds"
| "rule_body TotalHoldings pf question = answer_total_holdings pf question"
| "rule_body TotalTrades pf question = answer_total_trades pf question"
| "rule_body BestPerforming pf question = answer_best pf"
| "rule_body WorstPerforming pf question = answer_worst pf"
| "rule_body PerformanceRanking pf question = answer_performance_ranking pf"
| "rule_body PnlYTD pf question = answer_pnl_ytd pf question"
| "rule_body PnlMTD pf question = answer_pnl_mtd pf question"
| "rule_body PnlQTD pf question = answer_pnl_qtd pf question"
| "rule_body Securities pf question = answer_securities pf question"
| "rule_body SecurityTypes pf question = answer_security_types pf question"
| "rule_body TradeTypes pf question = answer_trade_types pf"
| "rule_body BuyCount pf question = answer_buys pf"
| "rule_body SellCount pf question = answer_sells pf"
| "rule_body MarketValue pf question = answer_market_value pf question"
| "rule_body Custodians pf question = answer_custodians"
| "rule_body Counterparties pf question = answer_counterparties"
| "rule_body HoldingsByType pf question = answer_holdings_by_type pf (strip (lower pf question))"
| "rule_body Quantity pf question = answer_quantity pf question"
| "rule_body Help pf question = returns help_text"
| "rule_body NoRule pf question = returns not_found"

section \<open>Notions used in the statements\<close>

text \<open>An action that leaves the object as it found it, whatever the object.\<close>

definition preserves :: "'a action \<Rightarrow> bool" where
  "preserves m = (\<forall>self. snd (m self) = self)"

text \<open>
  \<open>q'\<close> is a letter-case variant of \<open>q\<close>: the same characters, position by position,
  up to upper and lower case, that is, with equal lowercase forms.
\<close>

definition case_variant :: "platform \<Rightarrow> string \<Rightarrow> string \<Rightarrow> bool" where
  "case_variant pf q q' =
     list_all2 (\<lambda>c d. lower pf c = lower pf d) (code_points q) (code_points q')"

text \<open>The rules that look for a fund name in the question.\<close>

fun fund_scoped :: "intent \<Rightarrow> bool" where
  "fund_scoped TotalHoldings = True"
| "fund_scoped TotalTrades = True"
| "fund_scoped PnlYTD = True"
| "fund_scoped PnlMTD = True"
| "fund_scoped PnlQTD = True"
| "fund_scoped Securities = True"
| "fund_scoped SecurityTypes = True"
| "fund_scoped MarketValue = True"
| "fund_scoped Quantity = True"
| "fund_scoped other = False"

text \<open>
  The number of rows that the filter of a fund-scoped rule selects for a fund name: rows
  of the trades table for the trades count, rows of the holdings table for the others.
\<close>

definition selected_rows :: "platform \<Rightarrow> intent \<Rightarrow> string \<Rightarrow> nat action" where
  "selected_rows pf rule fund_name =
     (if rule = TotalTrades
      then and_then (trades TypeError) (\<lambda>t.
           and_then (lift (trades_mask pf fund_name t)) (\<lambda>m. returns (length (select t m))))
      else and_then (fund_rows pf fund_name) (\<lambda>filtered. returns (length filtered)))"

text \<open>
  The rules that read a table when it is empty: each rule with the table it takes its
  answer from, and the rules that list names from both tables when both are empty.
\<close>

fun reads_holdings :: "intent \<Rightarrow> bool" where
  "reads_holdings TotalHoldings = True"
| "reads_holdings BestPerforming = True"
| "reads_holdings WorstPerforming = True"
| "reads_holdings PerformanceRanking = True"
| "reads_holdings PnlYTD = True"
| "reads_holdings PnlMTD = True"
| "reads_holdings PnlQTD = True"
| "reads_holdings Securities = True"
| "reads_holdings SecurityTypes = True"
| "reads_holdings MarketValue = True"
| "reads_holdings HoldingsByType = True"
| "reads_holdings Quantity = True"
| "reads_holdings other = False"

fun reads_trades :: "intent \<Rightarrow> bool" where
  "reads_trades TotalTrades = True"
| "reads_trades TradeTypes = True"
| "reads_trades BuyCount = True"
| "reads_trades SellCount = True"
| "reads_trades Counterparties = True"
| "reads_trades other = False"

fun reads_both :: "intent \<Rightarrow> bool" where
  "reads_both ListFunds = True"
| "reads_both Custodians = True"
| "reads_both other = False"

definition reads_empty_table :: "holding list \<Rightarrow> trade list \<Rightarrow> intent \<Rightarrow> bool" where
  "reads_empty_table h t rule =
     ((h = [] \<and> reads_holdings rule) \<or> (t = [] \<and> reads_trades rule) \<or>
      (h = [] \<and> t = [] \<and> reads_both rule))"

text \<open>
  The answer of a rule on its empty table, given the fund name extracted from the
  question, if any: the sentinel for the fund when a fund-scoped rule has a name;
  without a name a count of 0, a value of \<open>$0.00\<close> or the request to name a fund; the
  generic sentinel in every other case.
\<close>

fun answer_without_name :: "intent \<Rightarrow> string" where
  "answer_without_name TotalHoldings = ''Total number of holdings across all funds: 0''"
| "answer_without_name TotalTrades = ''Total number of trades across all funds: 0''"
| "answer_without_name Securities = ''Please specify a fund name.''"
| "answer_without_name MarketValue = ''Total market value across all funds: $0.00''"
| "answer_without_name Quantity = ''Please specify a fund name for quantity information.''"
| "answer_without_name other = ''Sorry can not find the answer''"

definition degraded_answer :: "intent \<Rightarrow> string option \<Rightarrow> string" where
  "degraded_answer rule fund_name =
     (case fund_name of
        Some name \<Rightarrow>
          if fund_scoped rule
          then ''Sorry can not find the answer for fund '' @ [CHR 0x27] @ name @ [CHR 0x27]
          else ''Sorry can not find the answer''
      | None \<Rightarrow> answer_without_name rule)"

text \<open>
  A text column that the \<open>.str\<close> accessor accepts: it has no row, or a cell of it is
  not missing.
\<close>

definition str_column :: "string option list \<Rightarrow> bool" where
  "str_column col = (col = [] \<or> list_ex (\<lambda>cell. cell \<noteq> None) col)"

text \<open>The fund names of the two tables.\<close>

definition fund_names :: "holding list \<Rightarrow> trade list \<Rightarrow> string set" where
  "fund_names h t =
     set (dropna (map h_ShortName h)) \<union> set (dropna (map h_PortfolioName h)) \<union>
     set (dropna (map t_PortfolioName t))"

text \<open>A platform on which the iteration of a set visits only elements of the set.\<close>

definition iterates_members :: "platform \<Rightarrow> bool" where
  "iterates_members pf = (\<forall>names. set (set_iter pf names) \<subseteq> set names)"

text \<open>
  Tables whose cells give no query a reason to raise: every fund name, lowercased, is
  free of the special characters of regular expressions, so it compiles as a pattern;
  the text columns read through the \<open>.str\<close> accessor hold a string when they have a
  row; every holding has a security type, so the types of a fund can be joined.
\<close>

definition well_formed :: "platform \<Rightarrow> holding list \<Rightarrow> trade list \<Rightarrow> bool" where
  "well_formed pf h t =
     ((\<forall>name \<in> fund_names h t. plain_pattern (lower pf name)) \<and>
      str_column (map h_ShortName h) \<and> str_column (map h_PortfolioName h) \<and>
      str_column (map t_PortfolioName t) \<and> str_column (map t_TradeTypeName t) \<and>
      (\<forall>r \<in> set h. h_SecurityTypeName r \<noteq> None))"

section \<open>Example tables\<close>

text \<open>
  A platform for the examples with ASCII fund names, which do not reach
  \<open>unicode_lower\<close>. Sets are iterated in sorted order. A sum is the exact sum of the
  finite values, as float64 addition gives it on the values of the examples (a single
  cell, or cells whose sums are exact); the sorts keep equal entries in their order.
  \<open>re_compile\<close> refuses what it is given: the one pattern of these examples that
  reaches it, \<open>fund (a\<close>, has an open parenthesis that is never closed, and
  \<open>re.compile\<close> raises \<open>re.error\<close> on it.
\<close>

fun finite_value :: "float64 \<Rightarrow> rat" where
  "finite_value (Num x) = x"
| "finite_value other = 0"

definition exact_sum :: "float64 list \<Rightarrow> float64" where
  "exact_sum cells = Num (sum_list (map finite_value cells))"

definition ex_platform :: platform where
  "ex_platform =
     \<lparr>set_iter = sort,
      re_compile = (\<lambda>pat. Inl ReError),
      unicode_lower = (\<lambda>s. s),
      series_sum = exact_sum,
      group_sum = exact_sum,
      quicksort_values = (\<lambda>ascending. sort_key (\<lambda>kv.
          if ascending then float_key (snd kv) else negated (float_key (snd kv)))),
      quicksort_counts = sort_key (\<lambda>vc. - int (snd vc)),
      sorted_with_nan = (\<lambda>items. items)\<rparr>"

definition ex_holding :: "string \<Rightarrow> string \<Rightarrow> rat \<Rightarrow> holding" where
  "ex_holding short_name portfolio pl_ytd =
     \<lparr>h_ShortName = Some short_name, h_PortfolioName = Some portfolio,
      h_SecName = Some ''ACME 5% 2030'', h_SecurityTypeName = Some ''Bond'',
      h_CustodianName = Some ''Custodian One'', h_Qty = Num 100, h_MV_Base = Num 2500,
      h_PL_QTD = Num 10, h_PL_MTD = Num 5, h_PL_YTD = Num pl_ytd\<rparr>"

definition ex_trade :: "string \<Rightarrow> string \<Rightarrow> trade" where
  "ex_trade portfolio trade_type =
     \<lparr>t_PortfolioName = Some portfolio, t_CustodianName = Some ''Custodian Two'',
      t_Counterparty = Some ''Broker A'', t_TradeTypeName = Some trade_type\<rparr>"

text \<open>
  One holding of Garfield, whose YTD P&L is the float written \<open>1234567.891\<close>, and two
  of Heather; six trades of HoldCo 1, five of them buys.
\<close>

definition ex_bot :: DataChatbot where
  "ex_bot =
     \<lparr>holdings_df = Some [ex_holding ''Garfield'' ''Garfield Master'' (5302428716536693 / 4294967296),
                           ex_holding ''Heather'' ''Heather Master'' (- 20),
                           ex_holding ''Heather'' ''Heather Master'' (25 / 2)],
      trades_df = Some [ex_trade ''HoldCo 1'' ''Buy'', ex_trade ''HoldCo 1'' ''BUY'',
                        ex_trade ''HoldCo 1'' ''buy'', ex_trade ''HoldCo 1'' ''Sell'',
                        ex_trade ''HoldCo 1'' ''Buy'', ex_trade ''HoldCo 1'' ''Buy'']\<rparr>"

text \<open>
  Both tables loaded and empty; both tables absent; the holdings of \<open>ex_bot\<close> with
  the trades table absent, as when only \<open>trades.csv\<close> cannot be read; the holdings of
  \<open>ex_bot\<close> with an empty trades table. Then three tables of one holding beside an
  empty trades table: the short name is missing; the security type is missing; the
  short name has an open parenthesis.
\<close>

definition empty_bot :: DataChatbot where
  "empty_bot = \<lparr>holdings_df = Some [], trades_df = Some []\<rparr>"

definition unloaded_bot :: DataChatbot where
  "unloaded_bot = \<lparr>holdings_df = None, trades_df = None\<rparr>"

definition trades_absent_bot :: DataChatbot where
  "trades_absent_bot = ex_bot\<lparr>trades_df := None\<rparr>"

definition no_trades_bot :: DataChatbot where
  "no_trades_bot = ex_bot\<lparr>trades_df := Some []\<rparr>"

definition no_short_name_bot :: DataChatbot where
  "no_short_name_bot =
     \<lparr>holdings_df = Some [(ex_holding ''Garfield'' ''Garfield Master'' 1)\<lparr>h_ShortName := None\<rparr>],
      trades_df = Some []\<rparr>"

definition no_type_bot :: DataChatbot where
  "no_type_bot =
     \<lparr>holdings_df = Some [(ex_holding ''Garfield'' ''Garfield Master'' 1)\<lparr>h_SecurityTypeName := None\<rparr>],
      trades_df = Some []\<rparr>"

definition paren_bot :: DataChatbot where
  "paren_bot =
     \<lparr>holdings_df = Some [ex_holding ''Fund (A'' ''Master'' 1], trades_df = Some []\<rparr>"

text \<open>The funds Alpha and Beta, entered in the other order.\<close>

definition alpha_beta_bot :: DataChatbot where
  "alpha_beta_bot =
     \<lparr>holdings_df = Some [ex_holding ''Beta'' ''Beta'' 1, ex_holding ''Alpha'' ''Alpha'' 2],
      trades_df = Some [ex_trade ''Beta'' ''Buy'']\<rparr>"

text \<open>
  Two funds whose names contain the special character \<open>+\<close>. The pattern \<open>a+b\<close> means
  one or more \<open>a\<close> followed by \<open>b\<close>, so it is found exactly in the strings that contain
  \<open>ab\<close>; the platform of this example compiles that one pattern.
\<close>

definition plus_platform :: platform where
  "plus_platform =
     ex_platform\<lparr>re_compile := (\<lambda>pat. if pat = ''a+b'' then Inr (str_in ''ab'') else Inl ReError)\<rparr>"

definition plus_bot :: DataChatbot where
  "plus_bot =
     \<lparr>holdings_df = Some [ex_holding ''A+B'' ''Master 1'' 10, ex_holding ''A+B Growth'' ''Master 2'' 20],
      trades_df = Some []\<rparr>"

text \<open>
  A fund with the Greek name \<open>odos\<close>. In capitals its last letter is a capital sigma,
  which \<open>str.lower()\<close> turns into the final form of the small sigma at the end of a
  word and into the plain small sigma when it stands alone. The platform of this
  example lowers the strings of the example as Python does: the capitals omicron,
  delta and sigma one by one, and the question written in capitals; it leaves the
  strings in small letters as they are.
\<close>

definition odos_small :: string where
  "odos_small = [CHR 0xCE, CHR 0xBF, CHR 0xCE, CHR 0xB4, CHR 0xCE, CHR 0xBF, CHR 0xCF, CHR 0x83]"

definition odos_capital :: string where
  "odos_capital = [CHR 0xCE, CHR 0x9F, CHR 0xCE, CHR 0x94, CHR 0xCE, CHR 0x9F, CHR 0xCE, CHR 0xA3]"

definition odos_final :: string where
  "odos_final = [CHR 0xCE, CHR 0xBF, CHR 0xCE, CHR 0xB4, CHR 0xCE, CHR 0xBF, CHR 0xCF, CHR 0x82]"

definition sigma_lower :: "(string \<times> string) list" where
  "sigma_lower =
     [([CHR 0xCE, CHR 0x9F], [CHR 0xCE, CHR 0xBF]),
      ([CHR 0xCE, CHR 0x94], [CHR 0xCE, CHR 0xB4]),
      ([CHR 0xCE, CHR 0xA3], [CHR 0xCF, CHR 0x83]),
      (''Total holdings '' @ odos_capital, ''total holdings '' @ odos_final),
      (''Total holdings '' @ odos_small, ''total holdings '' @ odos_small)]"

definition sigma_platform :: platform where
  "sigma_platform =
     ex_platform\<lparr>unicode_lower := (\<lambda>s. case map_of sigma_lower s of Some l \<Rightarrow> l | None \<Rightarrow> s)\<rparr>"

definition sigma_bot :: DataChatbot where
  "sigma_bot =
     \<lparr>holdings_df = Some [ex_holding odos_small ''Hellas'' 10, ex_holding ''Alpha'' ''Alpha Master'' 20],
      trades_df = Some []\<rparr>"

section \<open>Basic facts\<close>

lemma returns_apply: "returns x self = (Inr x, self)"
  by (simp add: returns_def)

lemma raises_apply: "raises e self = (Inl e, self)"
  by (simp add: raises_def)

lemma lift_apply: "lift r self = (r, self)"
  by (simp add: lift_def)

lemmas apply_simps = returns_apply raises_apply lift_apply

lemma and_then_Inr: "m self = (Inr x, self') \<Longrightarrow> and_then m f self = f x self'"
  by (simp add: and_then_def)

lemma and_then_Inl: "m self = (Inl e, self') \<Longrightarrow> and_then m f self = (Inl e, self')"
  by (simp add: and_then_def)

lemma bind_result_simps [simp]:
  "bind_result (Inl e) f = Inl e"
  "bind_result (Inr x) f = f x"
  by (simp_all add: bind_result_def)

lemma holdings_loaded: "holdings_df self = Some h \<Longrightarrow> holdings e self = (Inr h, self)"
  by (simp add: holdings_def)

lemma trades_loaded: "trades_df self = Some t \<Longrightarrow> trades e self = (Inr t, self)"
  by (simp add: trades_def)

lemma holdings_absent: "holdings_df self = None \<Longrightarrow> holdings e self = (Inl e, self)"
  by (simp add: holdings_def)

lemma trades_absent: "trades_df self = None \<Longrightarrow> trades e self = (Inl e, self)"
  by (simp add: trades_def)

lemma lower_ascii: "is_ascii s \<Longrightarrow> lower pf s = ascii_lower s"
  by (simp add: lower_def)

lemma lower_Nil [simp]: "lower pf [] = []"
  by (simp add: lower_def is_ascii_def ascii_lower_def)

lemma strip_Nil [simp]: "strip [] = []"
  by (simp add: strip_def)

lemma lower_literals:
  "map (lower pf) [''equity'', ''bond'', ''option'', ''assetbacked'', ''fx forward''] =
     [''equity'', ''bond'', ''option'', ''assetbacked'', ''fx forward'']"
  "map (lower pf) [''Equity'', ''Bond'', ''Option'', ''AssetBacked'', ''FX Forward''] =
     [''equity'', ''bond'', ''option'', ''assetbacked'', ''fx forward'']"
  "map (lower pf) [''buy'', ''sell''] = [''buy'', ''sell'']"
proof -
  have a: "list_all is_ascii [''equity'', ''bond'', ''option'', ''assetbacked'', ''fx forward'',
      ''Equity'', ''Bond'', ''Option'', ''AssetBacked'', ''FX Forward'', ''buy'', ''sell'']"
    by code_simp
  have l: "map ascii_lower [''equity'', ''bond'', ''option'', ''assetbacked'', ''fx forward'',
      ''Equity'', ''Bond'', ''Option'', ''AssetBacked'', ''FX Forward'', ''buy'', ''sell''] =
      [''equity'', ''bond'', ''option'', ''assetbacked'', ''fx forward'',
       ''equity'', ''bond'', ''option'', ''assetbacked'', ''fx forward'', ''buy'', ''sell'']"
    by code_simp
  show "map (lower pf) [''equity'', ''bond'', ''option'', ''assetbacked'', ''fx forward''] =
     [''equity'', ''bond'', ''option'', ''assetbacked'', ''fx forward'']"
    and "map (lower pf) [''Equity'', ''Bond'', ''Option'', ''AssetBacked'', ''FX Forward''] =
     [''equity'', ''bond'', ''option'', ''assetbacked'', ''fx forward'']"
    and "map (lower pf) [''buy'', ''sell''] = [''buy'', ''sell'']"
    using a l by (simp_all add: lower_ascii)
qed

lemma classify_Nil: "classify pf [] = NoRule"
  unfolding classify_def holdings_by_type_trigger_def lower_literals
  by (simp add: list_funds_trigger_def total_holdings_trigger_def total_trades_trigger_def
      best_trigger_def worst_trigger_def ranking_trigger_def pnl_ytd_trigger_def
      pnl_mtd_trigger_def pnl_qtd_trigger_def securities_trigger_def
      security_types_trigger_def trade_types_trigger_def buys_trigger_def sells_trigger_def
      market_value_trigger_def custodians_trigger_def counterparties_trigger_def
      quantity_trigger_def help_trigger_def any_in_def)

lemma classify_nonempty: "classify pf ql \<noteq> NoRule \<Longrightarrow> ql \<noteq> []"
  using classify_Nil by auto

lemma str_in_nonempty: "str_in p s \<Longrightarrow> p \<noteq> [] \<Longrightarrow> s \<noteq> []"
  by (cases s) simp_all

lemma given_Some: "name \<noteq> [] \<Longrightarrow> given (Some name) = Some name"
  by (simp add: given_def)

lemma given_SomeD: "given fund = Some name \<Longrightarrow> fund = Some name \<and> name \<noteq> []"
  by (auto simp: given_def split: option.splits if_splits)

lemma process_question_classify:
  "process_question pf question =
     (if strip (lower pf question) = [] then returns ''Please enter a question.''
      else rule_body (classify pf (strip (lower pf question))) pf question)"
  by (simp add: process_question_def classify_def Let_def)

section \<open>The empty question\<close>

text \<open>
  Claim C8. For the empty question, \<open>process_question\<close> returns exactly
  "Please enter a question.", whatever the tables are, loaded or absent, and leaves
  the object as it was: no rule is tried and no table is read.
\<close>

theorem C8_empty_question:
  "process_question pf [] self = (Inr ''Please enter a question.'', self)"
  by (simp add: process_question_def returns_apply)

section \<open>Repeated questions\<close>

lemma preserves_returns [intro!]: "preserves (returns x)"
  by (simp add: preserves_def returns_apply)

lemma preserves_raises [intro!]: "preserves (raises e)"
  by (simp add: preserves_def raises_apply)

lemma preserves_lift [intro!]: "preserves (lift r)"
  by (simp add: preserves_def lift_apply)

lemma preserves_holdings [intro!]: "preserves (holdings e)"
  by (simp add: preserves_def holdings_def)

lemma preserves_trades [intro!]: "preserves (trades e)"
  by (simp add: preserves_def trades_def)

lemma preserves_and_then [intro!]:
  assumes "preserves m" and "\<And>x. preserves (f x)"
  shows "preserves (and_then m f)"
  unfolding preserves_def
proof
  fix self
  from assms(1) have m: "snd (m self) = self"
    by (simp add: preserves_def)
  show "snd (and_then m f self) = self"
  proof (cases "m self")
    case (Pair r self')
    with m have "self' = self"
      by simp
    with Pair assms(2) show ?thesis
      by (cases r) (simp_all add: and_then_def preserves_def)
  qed
qed

lemma preservesD: "preserves m \<Longrightarrow> m self = (fst (m self), self)"
  by (metis preserves_def prod.collapse)

lemma preserves_get_all_funds [intro!]: "preserves get_all_funds"
  unfolding get_all_funds_def by blast

lemma preserves_extract_fund_name [intro!]: "preserves (extract_fund_name pf question)"
  unfolding extract_fund_name_def Let_def by (auto split: option.splits)

lemma preserves_fund_rows [intro!]: "preserves (fund_rows pf fund_name)"
  unfolding fund_rows_def by blast

lemma preserves_fund_sum [intro!]: "preserves (fund_sum col pf fund_name)"
  unfolding fund_sum_def by blast

lemma preserves_fund_unique [intro!]: "preserves (fund_unique col pf fund_name)"
  unfolding fund_unique_def by blast

lemma preserves_queries [intro!]:
  "preserves (get_total_holdings_for_fund pf fund_name)"
  "preserves (get_total_trades_for_fund pf fund_name)"
  "preserves get_total_holdings"
  "preserves get_total_trades"
  "preserves (get_fund_pnl_ytd pf fund_name)"
  "preserves (get_pnl_mtd pf fund_name)"
  "preserves (get_pnl_qtd pf fund_name)"
  "preserves (get_fund_market_value pf fund_name)"
  "preserves (get_total_quantity_for_fund pf fund_name)"
  "preserves (all_funds_sum column pf)"
  "preserves (get_fund_performance_ranking pf)"
  "preserves (get_best_performing_funds pf n)"
  "preserves (get_worst_performing_funds pf n)"
  "preserves (get_securities_for_fund pf fund_name)"
  "preserves (get_security_types_for_fund pf fund_name)"
  "preserves (get_trade_types_summary pf)"
  "preserves (get_trades_by_type pf trade_type)"
  "preserves get_custodians"
  "preserves get_counterparties"
  "preserves get_security_types"
  "preserves (get_holdings_by_security_type pf sec_type)"
  unfolding get_total_holdings_for_fund_def get_total_trades_for_fund_def
    get_total_holdings_def get_total_trades_def get_fund_pnl_ytd_def get_pnl_mtd_def
    get_pnl_qtd_def get_fund_market_value_def get_total_quantity_for_fund_def
    all_funds_sum_def get_fund_performance_ranking_def get_best_performing_funds_def
    get_worst_performing_funds_def get_securities_for_fund_def
    get_security_types_for_fund_def get_trade_types_summary_def get_trades_by_type_def
    get_custodians_def get_counterparties_def get_security_types_def
    get_holdings_by_security_type_def
  by blast+

lemma preserves_holdings_by_type_loop [intro!]:
  "preserves (holdings_by_type_loop pf question_lower types)"
  by (induction types) auto

lemma preserves_answer_pnl:
  assumes "\<And>name. preserves (get_for_fund pf name)" and "preserves (get_for_all pf)"
  shows "preserves (answer_pnl period get_for_fund get_for_all pf question)"
  unfolding answer_pnl_def using assms by (auto split: option.splits)

lemma preserves_answers [intro!]:
  "preserves answer_list_funds"
  "preserves (answer_total_holdings pf question)"
  "preserves (answer_total_trades pf question)"
  "preserves (answer_best pf)"
  "preserves (answer_worst pf)"
  "preserves (answer_performance_ranking pf)"
  "preserves (answer_pnl_ytd pf question)"
  "preserves (answer_pnl_mtd pf question)"
  "preserves (answer_pnl_qtd pf question)"
  "preserves (answer_securities pf question)"
  "preserves (answer_security_types pf question)"
  "preserves (answer_trade_types pf)"
  "preserves (answer_buys pf)"
  "preserves (answer_sells pf)"
  "preserves (answer_market_value pf question)"
  "preserves answer_custodians"
  "preserves answer_counterparties"
  "preserves (answer_holdings_by_type pf question_lower)"
  "preserves (answer_quantity pf question)"
  unfolding answer_list_funds_def answer_total_holdings_def answer_total_trades_def
    answer_best_def answer_worst_def answer_performance_ranking_def answer_ranking_def
    answer_pnl_ytd_def answer_pnl_mtd_def answer_pnl_qtd_def answer_securities_def
    answer_security_types_def answer_trade_types_def answer_buys_def answer_sells_def
    answer_market_value_def answer_custodians_def answer_counterparties_def
    answer_holdings_by_type_def answer_quantity_def
  by (auto intro!: preserves_answer_pnl split: option.splits)

text \<open>
  No method assigns to an attribute of the object or updates a table in place: every
  rule body, and so the whole method, leaves the object as it was.
\<close>

lemma preserves_rule_body: "preserves (rule_body rule pf question)"
  by (cases rule) auto

lemma preserves_process_question: "preserves (process_question pf question)"
  unfolding process_question_classify by (auto intro: preserves_rule_body)

text \<open>
  Claim C6. After a call of \<open>process_question\<close> the object, with its two tables, is
  what it was before the call, and a second call with the same question, made on the
  object that the first call left, has the same outcome and leaves the object
  unchanged again.
\<close>

theorem C6_idempotent:
  "snd (process_question pf q self) = self \<and>
   fst (process_question pf q (snd (process_question pf q self))) =
     fst (process_question pf q self) \<and>
   snd (process_question pf q (snd (process_question pf q self))) = self"
proof -
  have "snd (process_question pf q self) = self"
    using preserves_process_question [of pf q] by (simp add: preserves_def)
  then show ?thesis
    by simp
qed

section \<open>Letter case\<close>

lemma ascii_not_continuation: "(of_char c :: nat) < 128 \<Longrightarrow> \<not> is_continuation c"
  by (simp add: is_continuation_def)

lemma code_points_ascii: "is_ascii s \<Longrightarrow> code_points s = map (\<lambda>c. [c]) s"
proof (induction s)
  case Nil
  show ?case by simp
next
  case (Cons c cs)
  then have "takeWhile is_continuation cs = []" and "dropWhile is_continuation cs = cs"
    by (cases cs; simp add: is_ascii_def ascii_not_continuation)+
  with Cons show ?case
    by (simp add: is_ascii_def)
qed

text \<open>On ASCII questions, letter-case variants have the same lowercase form.\<close>

lemma ascii_case_variant_lower:
  assumes "is_ascii q" and "is_ascii q'" and "case_variant pf q q'"
  shows "lower pf q = lower pf q'"
proof -
  have "list_all2 (\<lambda>c d. lower pf [c] = lower pf [d]) q q'"
    using assms(3) by (simp add: case_variant_def code_points_ascii assms(1,2) list_all2_map1 list_all2_map2)
  then have "map lower_char q = map lower_char q'"
    using assms(1,2)
  proof (induction q q' rule: list_all2_induct)
    case Nil
    show ?case by simp
  next
    case (Cons c cs d ds)
    then show ?case
      by (simp add: is_ascii_def lower_def ascii_lower_def)
  qed
  then show ?thesis
    using assms(1,2) by (simp add: lower_ascii ascii_lower_def)
qed

lemma extract_fund_name_lower:
  "lower pf q = lower pf q' \<Longrightarrow> extract_fund_name pf q = extract_fund_name pf q'"
  by (simp add: extract_fund_name_def)

text \<open>
  Claim C10, as amended. A question and a letter-case variant of it get the same
  outcome when both are ASCII text or, more generally, when their lowercased texts are
  equal: the rules read the stripped, lowercased question, \<open>extract_fund_name\<close> reads
  the lowercased question, and no answer contains text of the question.
\<close>

theorem C10_same_lowercase:
  assumes "case_variant pf q q'"
    and "(is_ascii q \<and> is_ascii q') \<or> lower pf q = lower pf q'"
  shows "process_question pf q self = process_question pf q' self"
proof -
  have l: "lower pf q = lower pf q'"
    using assms ascii_case_variant_lower [of q q' pf] by blast
  have e: "extract_fund_name pf q = extract_fund_name pf q'"
    using l by (rule extract_fund_name_lower)
  show ?thesis
    unfolding process_question_def answer_total_holdings_def answer_total_trades_def
      answer_pnl_ytd_def answer_pnl_mtd_def answer_pnl_qtd_def answer_pnl_def
      answer_securities_def answer_security_types_def answer_market_value_def
      answer_quantity_def l e
    by (rule refl)
qed

theorem C10_same_lowercase_witness:
  "case_variant ex_platform ''TOTAL Holdings for GARFIELD'' ''total holdings for Garfield'' \<and>
   is_ascii ''TOTAL Holdings for GARFIELD'' \<and> is_ascii ''total holdings for Garfield'' \<and>
   process_question ex_platform ''TOTAL Holdings for GARFIELD'' ex_bot =
     process_question ex_platform ''total holdings for Garfield'' ex_bot \<and>
   process_question ex_platform ''total holdings for Garfield'' ex_bot =
     (Inr ''Total number of holdings for Garfield: 1'', ex_bot)"
proof -
  have h1: "case_variant ex_platform ''TOTAL Holdings for GARFIELD'' ''total holdings for Garfield''"
    by code_simp
  have a: "is_ascii ''TOTAL Holdings for GARFIELD'' \<and> is_ascii ''total holdings for Garfield''"
    by code_simp
  then have h2: "(is_ascii ''TOTAL Holdings for GARFIELD'' \<and> is_ascii ''total holdings for Garfield'') \<or>
      lower ex_platform ''TOTAL Holdings for GARFIELD'' =
        lower ex_platform ''total holdings for Garfield''"
    by (rule disjI1)
  have v: "fst (process_question ex_platform ''total holdings for Garfield'' ex_bot) =
      Inr ''Total number of holdings for Garfield: 1''"
    by code_simp
  have "process_question ex_platform ''total holdings for Garfield'' ex_bot =
      (Inr ''Total number of holdings for Garfield: 1'', ex_bot)"
    using v preservesD [OF preserves_process_question, of ex_platform
        "''total holdings for Garfield''" ex_bot]
    by simp
  with h1 a C10_same_lowercase [OF h1 h2, of ex_bot] show ?thesis
    by simp
qed

text \<open>
  The claim as stated fails. The question "Total holdings" followed by the fund's name
  in capitals and the same question with the name in small letters are letter-case
  variants, character by character. Lowercased as a whole, the first ends in a final
  sigma and no longer contains the fund's lowercased name: no fund is extracted and
  all holdings are counted, where the second question counts the fund's.
\<close>

theorem C10_final_sigma:
  "case_variant sigma_platform (''Total holdings '' @ odos_capital) (''Total holdings '' @ odos_small) \<and>
   fst (process_question sigma_platform (''Total holdings '' @ odos_capital) sigma_bot) =
     Inr ''Total number of holdings across all funds: 2'' \<and>
   fst (process_question sigma_platform (''Total holdings '' @ odos_small) sigma_bot) =
     Inr (''Total number of holdings for '' @ odos_small @ '': 1'')"
  by code_simp
section \<open>The order of the rules\<close>

lemma process_question_outcome:
  "fst (process_question pf q self) = r \<Longrightarrow> process_question pf q self = (r, self)"
  using preservesD [OF preserves_process_question, of pf q self] by simp

text \<open>
  A question with "total" and "trades" never reaches the YTD P&L rule: one of the first
  three rules takes it.
\<close>

lemma total_trades_never_pnl:
  "str_in ''total'' ql \<Longrightarrow> str_in ''trades'' ql \<Longrightarrow> classify pf ql \<noteq> PnlYTD"
  by (simp add: classify_def total_trades_trigger_def)

text \<open>
  Claim C2, as amended. A question whose stripped, lowercased text contains "total",
  "trades" and a trigger phrase of the YTD P&L rule, and triggers neither the
  list-funds rule nor the holdings-count rule (the two rules placed before the trades
  count), resolves to the trades-count rule, and the outcome of \<open>process_question\<close> is
  the outcome of that rule's body.
\<close>

theorem C2_trades_before_pnl:
  assumes "str_in ''total'' (strip (lower pf q))"
    and "str_in ''trades'' (strip (lower pf q))"
    and "pnl_ytd_trigger (strip (lower pf q))"
    and "\<not> list_funds_trigger (strip (lower pf q))"
    and "\<not> total_holdings_trigger (strip (lower pf q))"
  shows "classify pf (strip (lower pf q)) = TotalTrades \<and>
         process_question pf q self = answer_total_trades pf q self"
proof -
  have ne: "strip (lower pf q) \<noteq> []"
    using assms(1) by (rule str_in_nonempty) simp
  have c: "classify pf (strip (lower pf q)) = TotalTrades"
    using assms by (simp add: classify_def total_trades_trigger_def)
  show ?thesis
    using ne c by (simp add: process_question_classify)
qed

theorem C2_trades_before_pnl_witness:
  "str_in ''total'' (strip (lower ex_platform ''Total trades and pnl'')) \<and>
   str_in ''trades'' (strip (lower ex_platform ''Total trades and pnl'')) \<and>
   pnl_ytd_trigger (strip (lower ex_platform ''Total trades and pnl'')) \<and>
   classify ex_platform (strip (lower ex_platform ''Total trades and pnl'')) = TotalTrades \<and>
   process_question ex_platform ''Total trades and pnl'' ex_bot =
     answer_total_trades ex_platform ''Total trades and pnl'' ex_bot \<and>
   process_question ex_platform ''Total trades and pnl'' ex_bot =
     (Inr ''Total number of trades across all funds: 6'', ex_bot)"
proof -
  have h1: "str_in ''total'' (strip (lower ex_platform ''Total trades and pnl''))" by code_simp
  have h2: "str_in ''trades'' (strip (lower ex_platform ''Total trades and pnl''))" by code_simp
  have h3: "pnl_ytd_trigger (strip (lower ex_platform ''Total trades and pnl''))" by code_simp
  have h4: "\<not> list_funds_trigger (strip (lower ex_platform ''Total trades and pnl''))" by code_simp
  have h5: "\<not> total_holdings_trigger (strip (lower ex_platform ''Total trades and pnl''))" by code_simp
  have "fst (answer_total_trades ex_platform ''Total trades and pnl'' ex_bot) =
      Inr ''Total number of trades across all funds: 6''" by code_simp
  then have v: "answer_total_trades ex_platform ''Total trades and pnl'' ex_bot =
      (Inr ''Total number of trades across all funds: 6'', ex_bot)"
    using preservesD [OF preserves_answers(3), of ex_platform "''Total trades and pnl''" ex_bot]
    by simp
  from C2_trades_before_pnl [OF h1 h2 h3 h4 h5, of ex_bot] h1 h2 h3 v
  show ?thesis by simp
qed

text \<open>
  The claim as stated fails: "total holdings trades pnl" contains "total", "trades" and
  the YTD trigger "pnl", and is answered by the holdings-count rule, which comes first;
  the trades-count body would have answered otherwise.
\<close>

theorem C2_holdings_rule_first:
  "str_in ''total'' (strip (lower ex_platform ''total holdings trades pnl'')) \<and>
   str_in ''trades'' (strip (lower ex_platform ''total holdings trades pnl'')) \<and>
   pnl_ytd_trigger (strip (lower ex_platform ''total holdings trades pnl'')) \<and>
   classify ex_platform (strip (lower ex_platform ''total holdings trades pnl'')) = TotalHoldings \<and>
   fst (process_question ex_platform ''total holdings trades pnl'' ex_bot) =
     Inr ''Total number of holdings across all funds: 3'' \<and>
   fst (answer_total_trades ex_platform ''total holdings trades pnl'' ex_bot) =
     Inr ''Total number of trades across all funds: 6''"
  by code_simp

text \<open>
  Claim C3. "How many buy trades?" is asked of a trades table with exactly five buys
  (in mixed case) among its six rows, and no fund name can be extracted. The body of
  the buy rule would answer "Total number of Buy trades: 5"; the question contains
  "how many" and "trades", so the trades-count rule, placed before the buy rule, takes
  it and the answer counts all trades.
\<close>

theorem C3_buy_question_counts_all_trades:
  "fst (get_trades_by_type ex_platform ''buy'' ex_bot) = Inr 5 \<and>
   fst (extract_fund_name ex_platform ''How many buy trades?'' ex_bot) = Inr None \<and>
   fst (answer_buys ex_platform ex_bot) = Inr ''Total number of Buy trades: 5'' \<and>
   classify ex_platform (strip (lower ex_platform ''How many buy trades?'')) = TotalTrades \<and>
   fst (process_question ex_platform ''How many buy trades?'' ex_bot) =
     Inr ''Total number of trades across all funds: 6''"
  by code_simp

section \<open>Listing the funds\<close>

lemma set_unique_from: "set (unique_from seen xs) = set xs - set seen"
  by (induction xs arbitrary: seen) auto

lemma distinct_unique_from: "distinct (unique_from seen xs)"
  by (induction xs arbitrary: seen) (auto simp: set_unique_from)

lemma set_unique [simp]: "set (unique xs) = set xs"
  by (simp add: unique_def set_unique_from)

lemma distinct_unique [simp]: "distinct (unique xs)"
  by (simp add: unique_def distinct_unique_from)

lemma set_set_union [simp]: "set (set_union a b) = set a \<union> set b"
  by (auto simp: set_union_def)

lemma distinct_set_union [simp]: "distinct a \<Longrightarrow> distinct b \<Longrightarrow> distinct (set_union a b)"
  by (auto simp: set_union_def)

lemma list_funds_trigger_nonempty: "list_funds_trigger ql \<Longrightarrow> ql \<noteq> []"
  by (auto simp: list_funds_trigger_def any_in_def)

lemma get_all_funds_loaded:
  assumes "holdings_df self = Some h" and "trades_df self = Some t"
  shows "get_all_funds self =
     (Inr (set_union (set_union (unique (dropna (map h_ShortName h)))
             (unique (dropna (map h_PortfolioName h)))) (unique (dropna (map t_PortfolioName t)))),
      self)"
  using assms
  by (simp add: get_all_funds_def and_then_def holdings_def trades_def returns_apply)



section \<open>Currency format\<close>

lemma round_half_even_between:
  assumes "of_int n - 1 / 2 < x" and "x < of_int n + 1 / 2"
  shows "round_half_even x = n"
proof -
  have "n - 1 \<le> \<lfloor>x\<rfloor>"
    using assms(1) by (simp add: le_floor_iff)
  moreover have "\<lfloor>x\<rfloor> \<le> n"
    using assms(2) by (simp add: floor_le_iff)
  ultimately consider "\<lfloor>x\<rfloor> = n - 1" | "\<lfloor>x\<rfloor> = n"
    by linarith
  then show ?thesis
  proof cases
    case 1
    with assms(1) show ?thesis
      by (simp add: round_half_even_def Let_def)
  next
    case 2
    with assms(2) show ?thesis
      by (simp add: round_half_even_def Let_def)
  qed
qed

lemma digits_of_the_amount:
  "group3 (digits (123456789 div 10 ^ 2)) @ ''.'' @ zero_pad 2 (digits (123456789 mod 10 ^ 2)) =
     ''1,234,567.89''"
  by code_simp

text \<open>Every finite amount within half a cent of 1234567.89 is written the same way.\<close>

lemma money_of_the_amount:
  assumes "1234567885 / 1000 < v" and "v < 1234567895 / 1000"
  shows "money (Num v) = ''$1,234,567.89''"
proof -
  have "round_half_even (\<bar>v\<bar> * 10 ^ 2) = 123456789"
    using assms by (intro round_half_even_between) simp_all
  moreover have "\<not> v < 0"
    using assms(1) by simp
  ultimately show ?thesis
    using digits_of_the_amount by (simp add: money_def format_finite_def)
qed

text \<open>
  Claim C7. When the YTD P&L rule answers for an extracted fund and the fund's YTD P&L
  sum, as computed, is a finite number within half a cent of 1234567.89 (the exact value
  1234567.891 is one, and so is the float nearest to it), the amount is rendered as
  \<open>$1,234,567.89\<close>: a dollar sign, commas between the thousands, two decimals.
\<close>

theorem C7_ytd_currency_format:
  assumes "classify pf (strip (lower pf q)) = PnlYTD"
    and "fst (extract_fund_name pf q self) = Inr (Some name)"
    and "name \<noteq> []"
    and "fst (get_fund_pnl_ytd pf name self) = Inr (Some (Num v))"
    and "1234567885 / 1000 < v" and "v < 1234567895 / 1000"
  shows "process_question pf q self = (Inr (''YTD P&L for '' @ name @ '': $1,234,567.89''), self)"
proof -
  have ne: "strip (lower pf q) \<noteq> []"
    using assms(1) by (intro classify_nonempty [of pf]) simp
  have e: "extract_fund_name pf q self = (Inr (Some name), self)"
    using assms(2) preservesD [OF preserves_extract_fund_name, of pf q self] by simp
  have s: "get_fund_pnl_ytd pf name self = (Inr (Some (Num v)), self)"
    using assms(4) preservesD [OF preserves_queries(5), of pf name self] by simp
  show ?thesis
    using ne assms(1,3) money_of_the_amount [OF assms(5,6)]
    by (simp add: process_question_classify answer_pnl_ytd_def answer_pnl_def and_then_def
        e s given_Some returns_apply)
qed

theorem C7_ytd_currency_format_witness:
  "classify ex_platform (strip (lower ex_platform ''YTD P&L for Garfield'')) = PnlYTD \<and>
   fst (extract_fund_name ex_platform ''YTD P&L for Garfield'' ex_bot) = Inr (Some ''Garfield'') \<and>
   fst (get_fund_pnl_ytd ex_platform ''Garfield'' ex_bot) =
     Inr (Some (Num (5302428716536693 / 4294967296))) \<and>
   (1234567885 / 1000 :: rat) < 5302428716536693 / 4294967296 \<and>
   (5302428716536693 / 4294967296 :: rat) < 1234567895 / 1000 \<and>
   process_question ex_platform ''YTD P&L for Garfield'' ex_bot =
     (Inr ''YTD P&L for Garfield: $1,234,567.89'', ex_bot)"
proof -
  have h1: "classify ex_platform (strip (lower ex_platform ''YTD P&L for Garfield'')) = PnlYTD"
    by code_simp
  have h2: "fst (extract_fund_name ex_platform ''YTD P&L for Garfield'' ex_bot) =
      Inr (Some ''Garfield'')"
    by code_simp
  have h3: "''Garfield'' \<noteq> []" by simp
  have h4: "fst (get_fund_pnl_ytd ex_platform ''Garfield'' ex_bot) =
      Inr (Some (Num (5302428716536693 / 4294967296)))"
    by code_simp
  have h5: "(1234567885 / 1000 :: rat) < 5302428716536693 / 4294967296" by simp
  have h6: "(5302428716536693 / 4294967296 :: rat) < 1234567895 / 1000" by simp
  from C7_ytd_currency_format [OF h1 h2 h3 h4 h5 h6] h1 h2 h4 h5 h6 show ?thesis
    by simp
qed

section \<open>A fund without rows\<close>

lemma length_select: "length xs = length m \<Longrightarrow> length (select xs m) = mask_sum m"
  unfolding select_def mask_sum_def
  by (induction xs m rule: list_induct2) simp_all

lemma str_lower_length: "str_lower pf col = Inr lowered \<Longrightarrow> length lowered = length col"
  by (auto simp: str_lower_def str_accessor_def bind_result_def split: if_splits)

lemma lower_contains_length: "lower_contains pf name col = Inr m \<Longrightarrow> length m = length col"
  by (auto simp: lower_contains_def str_contains_def bind_result_def split: sum.splits
      dest: str_lower_length)

lemma fund_mask_length: "fund_mask pf fund_name h = Inr m \<Longrightarrow> length m = length h"
  by (auto simp: fund_mask_def bind_result_def split: sum.splits dest!: lower_contains_length)

lemma trades_mask_length: "trades_mask pf fund_name t = Inr m \<Longrightarrow> length m = length t"
  by (auto simp: trades_mask_def dest!: lower_contains_length)

lemma fund_rows_InrD:
  assumes "fst (fund_rows pf fund_name self) = Inr rows"
  obtains h m where "holdings_df self = Some h" and "fund_mask pf fund_name h = Inr m"
    and "rows = select h m"
  using assms
  by (auto simp: fund_rows_def and_then_def holdings_def apply_simps
      split: option.splits sum.splits)

lemma fund_rows_outcome:
  "fst (fund_rows pf fund_name self) = r \<Longrightarrow> fund_rows pf fund_name self = (r, self)"
  using preservesD [OF preserves_fund_rows, of pf fund_name self] by simp

lemma no_rows_holdings:
  assumes "fst (selected_rows pf rule fund_name self) = Inr 0" and "rule \<noteq> TotalTrades"
  shows "fund_rows pf fund_name self = (Inr [], self)"
proof -
  have "fst (fund_rows pf fund_name self) = Inr []"
    using assms
    by (cases "fund_rows pf fund_name self"; cases "fst (fund_rows pf fund_name self)")
      (auto simp: selected_rows_def and_then_def apply_simps)
  then show ?thesis
    by (rule fund_rows_outcome)
qed

lemma no_rows_total_holdings:
  assumes "fund_rows pf fund_name self = (Inr [], self)"
  shows "get_total_holdings_for_fund pf fund_name self = (Inr None, self)"
proof -
  from assms have "fst (fund_rows pf fund_name self) = Inr []"
    by simp
  then obtain h m where h: "holdings_df self = Some h"
    and m: "fund_mask pf fund_name h = Inr m" and s: "[] = select h m"
    by (rule fund_rows_InrD)
  have "mask_sum m = length (select h m)"
    using fund_mask_length [OF m] by (simp add: length_select)
  with s have "mask_sum m = 0"
    by simp
  with h m show ?thesis
    by (simp add: get_total_holdings_for_fund_def and_then_def holdings_def apply_simps)
qed

lemma no_rows_total_trades:
  assumes "fst (selected_rows pf TotalTrades fund_name self) = Inr 0"
  shows "get_total_trades_for_fund pf fund_name self = (Inr None, self)"
proof -
  from assms obtain t m where t: "trades_df self = Some t"
    and m: "trades_mask pf fund_name t = Inr m" and s: "length (select t m) = 0"
    by (auto simp: selected_rows_def and_then_def trades_def apply_simps
        split: option.splits sum.splits)
  have "mask_sum m = length (select t m)"
    using trades_mask_length [OF m] by (simp add: length_select)
  with s have "mask_sum m = 0"
    by simp
  with t m show ?thesis
    by (simp add: get_total_trades_for_fund_def and_then_def trades_def apply_simps)
qed

lemma no_rows_fund_sum:
  "fund_rows pf fund_name self = (Inr [], self) \<Longrightarrow> fund_sum col pf fund_name self = (Inr None, self)"
  by (simp add: fund_sum_def and_then_def apply_simps)

lemma no_rows_fund_unique:
  "fund_rows pf fund_name self = (Inr [], self) \<Longrightarrow>
   fund_unique col pf fund_name self = (Inr None, self)"
  by (simp add: fund_unique_def and_then_def apply_simps)

text \<open>
  Claim C4. For every rule that looks for a fund name (the holdings and trades counts,
  YTD, MTD and QTD P&L, securities, security types, market value, quantity): when a
  non-empty fund name is extracted from the question and the rule's filter selects no
  row of its table, the answer is "Sorry can not find the answer for fund '...'" with
  the extracted name between the quotes, and so is not the generic sentinel.
\<close>

theorem C4_fund_sentinel:
  assumes "fund_scoped (classify pf (strip (lower pf q)))"
    and "fst (extract_fund_name pf q self) = Inr (Some name)"
    and "name \<noteq> []"
    and "fst (selected_rows pf (classify pf (strip (lower pf q))) name self) = Inr 0"
  shows "process_question pf q self =
           (Inr (''Sorry can not find the answer for fund '' @ [CHR 0x27] @ name @ [CHR 0x27]), self) \<and>
         fst (process_question pf q self) \<noteq> Inr ''Sorry can not find the answer''"
proof -
  let ?rule = "classify pf (strip (lower pf q))"
  let ?sentinel = "''Sorry can not find the answer for fund '' @ [CHR 0x27] @ name @ [CHR 0x27]"
  have ne: "strip (lower pf q) \<noteq> []"
    using assms(1) by (intro classify_nonempty [of pf]) auto
  have e: "extract_fund_name pf q self = (Inr (Some name), self)"
    using assms(2) preservesD [OF preserves_extract_fund_name, of pf q self] by simp
  have g: "given (Some name) = Some name"
    using assms(3) by (rule given_Some)
  have body: "rule_body ?rule pf q self = (Inr ?sentinel, self)"
  proof (cases "?rule = TotalTrades")
    case True
    with assms(4) have "get_total_trades_for_fund pf name self = (Inr None, self)"
      by (simp add: no_rows_total_trades)
    with True show ?thesis
      by (simp add: answer_total_trades_def and_then_def e g apply_simps not_found_for_fund_def)
  next
    case False
    with assms(4) have rows: "fund_rows pf name self = (Inr [], self)"
      by (rule no_rows_holdings)
    note none = no_rows_total_holdings [OF rows] no_rows_fund_sum [OF rows]
      no_rows_fund_unique [OF rows]
    from assms(1) False show ?thesis
      by (cases ?rule)
        (simp_all add: and_then_def e g none apply_simps not_found_for_fund_def
          answer_total_holdings_def answer_pnl_ytd_def
          answer_pnl_mtd_def answer_pnl_qtd_def answer_pnl_def answer_securities_def
          answer_security_types_def answer_market_value_def answer_quantity_def
          get_fund_pnl_ytd_def get_pnl_mtd_def get_pnl_qtd_def get_fund_market_value_def
          get_total_quantity_for_fund_def get_securities_for_fund_def
          get_security_types_for_fund_def)
  qed
  show ?thesis
    using ne body by (simp add: process_question_classify)
qed

theorem C4_fund_sentinel_witness:
  "fund_scoped (classify ex_platform (strip (lower ex_platform ''YTD P&L for HoldCo 1''))) \<and>
   fst (extract_fund_name ex_platform ''YTD P&L for HoldCo 1'' ex_bot) = Inr (Some ''HoldCo 1'') \<and>
   fst (selected_rows ex_platform
     (classify ex_platform (strip (lower ex_platform ''YTD P&L for HoldCo 1''))) ''HoldCo 1'' ex_bot) = Inr 0 \<and>
   process_question ex_platform ''YTD P&L for HoldCo 1'' ex_bot =
     (Inr (''Sorry can not find the answer for fund '' @ [CHR 0x27] @ ''HoldCo 1'' @ [CHR 0x27]), ex_bot) \<and>
   fst (process_question ex_platform ''YTD P&L for HoldCo 1'' ex_bot) \<noteq>
     Inr ''Sorry can not find the answer''"
proof -
  have h1: "fund_scoped (classify ex_platform (strip (lower ex_platform ''YTD P&L for HoldCo 1'')))"
    by code_simp
  have h2: "fst (extract_fund_name ex_platform ''YTD P&L for HoldCo 1'' ex_bot) =
      Inr (Some ''HoldCo 1'')"
    by code_simp
  have h3: "''HoldCo 1'' \<noteq> []" by simp
  have h4: "fst (selected_rows ex_platform
      (classify ex_platform (strip (lower ex_platform ''YTD P&L for HoldCo 1''))) ''HoldCo 1'' ex_bot) =
      Inr 0" by code_simp
  from C4_fund_sentinel [OF h1 h2 h3 h4] h1 h2 h4 show ?thesis
    by blast
qed

section \<open>The filter by fund name\<close>

lemma select_map2_or:
  "select h (map2 (\<or>) (map f h) (map g h)) = filter (\<lambda>r. f r \<or> g r) h"
  by (induction h) (simp_all add: select_def)

lemma str_accessor_column: "str_column col \<Longrightarrow> str_accessor col = Inr col"
  by (auto simp: str_column_def str_accessor_def list_all_iff list_ex_iff)

lemma lower_contains_plain:
  assumes "plain_pattern (lower pf name)" and "str_column col"
  shows "lower_contains pf name col =
     Inr (map (\<lambda>cell. na_false (str_in (lower pf name)) (map_option (lower pf) cell)) col)"
  using assms
  by (simp add: lower_contains_def str_lower_def str_contains_def contains_matcher_def
      str_accessor_column)

text \<open>
  For a fund name without special characters the filter is substring containment, up
  to letter case, in the short name or the portfolio name.
\<close>

lemma fund_mask_plain:
  assumes "plain_pattern (lower pf fund_name)"
    and "str_column (map h_ShortName h)" and "str_column (map h_PortfolioName h)"
  shows "fund_mask pf fund_name h =
      Inr (map2 (\<or>)
        (map (\<lambda>r. na_false (str_in (lower pf fund_name)) (map_option (lower pf) (h_ShortName r))) h)
        (map (\<lambda>r. na_false (str_in (lower pf fund_name)) (map_option (lower pf) (h_PortfolioName r))) h))"
  by (simp add: fund_mask_def lower_contains_plain [OF assms(1,2)]
      lower_contains_plain [OF assms(1,3)] comp_def)

lemma fund_rows_plain:
  assumes "plain_pattern (lower pf fund_name)" and "holdings_df self = Some h"
    and "str_column (map h_ShortName h)" and "str_column (map h_PortfolioName h)"
  shows "fund_rows pf fund_name self =
     (Inr (filter (\<lambda>r. na_false (str_in (lower pf fund_name)) (map_option (lower pf) (h_ShortName r)) \<or>
                       na_false (str_in (lower pf fund_name)) (map_option (lower pf) (h_PortfolioName r))) h),
      self)"
  using assms(2)
  by (simp add: fund_rows_def and_then_def holdings_def apply_simps
      fund_mask_plain [OF assms(1,3,4)] select_map2_or)

text \<open>
  So, for such a name, the rows of every fund whose name contains it are among the rows
  selected for it.
\<close>

lemma contained_names_selected:
  assumes "plain_pattern (lower pf short)" and "holdings_df self = Some h"
    and "str_column (map h_ShortName h)" and "str_column (map h_PortfolioName h)"
    and "str_in (lower pf short) (lower pf long)"
    and "row \<in> set h"
    and "h_ShortName row = Some long \<or> h_PortfolioName row = Some long"
  shows "\<exists>rows. fund_rows pf short self = (Inr rows, self) \<and> row \<in> set rows"
  using assms(5-7) by (auto simp: fund_rows_plain [OF assms(1-4)] na_false_def)

text \<open>
  Claim C9. The funds "A+B" and "A+B Growth" each have one holding. The name "A+B" is
  extracted from the question; lowercased, it is contained in both lowercased short
  names, so a filter by containment would select both rows. As a regular expression it
  is found in neither, the filter selects no row, and the holdings count answers with
  the sentinel for the fund.
\<close>

theorem C9_name_read_as_regex:
  "fst (extract_fund_name plus_platform ''Total holdings for A+B'' plus_bot) = Inr (Some ''A+B'') \<and>
   str_in (lower plus_platform ''A+B'') (lower plus_platform ''A+B'') \<and>
   str_in (lower plus_platform ''A+B'') (lower plus_platform ''A+B Growth'') \<and>
   fst (fund_rows plus_platform ''A+B'' plus_bot) = Inr [] \<and>
   fst (process_question plus_platform ''Total holdings for A+B'' plus_bot) =
     Inr (''Sorry can not find the answer for fund '' @ [CHR 0x27] @ ''A+B'' @ [CHR 0x27])"
  by code_simp

section \<open>Empty and absent tables\<close>

lemma digits_0: "digits 0 = ''0''"
  by code_simp

lemma money_0: "money (Num 0) = ''$0.00''"
  by code_simp

lemma fund_names_funds:
  "set (set_union (set_union (unique (dropna (map h_ShortName h)))
      (unique (dropna (map h_PortfolioName h)))) (unique (dropna (map t_PortfolioName t)))) =
   fund_names h t"
  by (simp add: fund_names_def)

text \<open>On loaded tables a fund name is extracted, or none, and the name is a fund's.\<close>

lemma extract_loaded:
  assumes "holdings_df self = Some h" and "trades_df self = Some t" and "iterates_members pf"
  obtains fund where "extract_fund_name pf q self = (Inr fund, self)"
    and "\<And>name. fund = Some name \<Longrightarrow> name \<in> fund_names h t"
proof -
  let ?funds = "set_union (set_union (unique (dropna (map h_ShortName h)))
      (unique (dropna (map h_PortfolioName h)))) (unique (dropna (map t_PortfolioName t)))"
  let ?first = "find (\<lambda>fund. str_in (lower pf fund) (lower pf q)) (set_iter pf ?funds)"
  let ?second = "find (\<lambda>fund. list_ex (\<lambda>word. len word > 3 \<and> str_in word (lower pf q))
      (split (lower pf fund))) (set_iter pf ?funds)"
  let ?fund = "case ?first of Some fund \<Rightarrow> Some fund | None \<Rightarrow> ?second"
  have g: "get_all_funds self = (Inr ?funds, self)"
    using assms(1,2) by (rule get_all_funds_loaded)
  have e: "extract_fund_name pf q self = (Inr ?fund, self)"
    by (simp add: extract_fund_name_def and_then_def g Let_def apply_simps split: option.splits)
  have sub: "set (set_iter pf ?funds) \<subseteq> fund_names h t"
    using assms(3) unfolding iterates_members_def fund_names_funds [symmetric] by blast
  have "name \<in> fund_names h t" if "?fund = Some name" for name
  proof -
    from that have "?first = Some name \<or> ?second = Some name"
      by (auto split: option.splits)
    then have "name \<in> set (set_iter pf ?funds)"
      by (auto simp: find_Some_iff)
    with sub show ?thesis
      by blast
  qed
  with e show thesis
    by (rule that)
qed

lemma well_formed_plain:
  "well_formed pf h t \<Longrightarrow> name \<in> fund_names h t \<Longrightarrow> plain_pattern (lower pf name)"
  by (simp add: well_formed_def)

lemma set_select: "set (select rows m) \<subseteq> set rows"
  by (auto simp: select_def dest: set_zip_leftD)

lemma fund_rows_well_formed:
  assumes "holdings_df self = Some h" and "well_formed pf h t" and "name \<in> fund_names h t"
  obtains rows where "fund_rows pf name self = (Inr rows, self)" and "set rows \<subseteq> set h"
proof -
  have p: "plain_pattern (lower pf name)"
    using assms(2,3) by (rule well_formed_plain)
  have c: "str_column (map h_ShortName h)" "str_column (map h_PortfolioName h)"
    using assms(2) by (simp_all add: well_formed_def)
  show thesis
    by (rule that [OF fund_rows_plain [OF p assms(1) c] ]) simp
qed

lemma total_holdings_well_formed:
  assumes "holdings_df self = Some h" and "well_formed pf h t" and "name \<in> fund_names h t"
  shows "\<exists>count. get_total_holdings_for_fund pf name self = (Inr count, self)"
proof -
  have p: "plain_pattern (lower pf name)"
    using assms(2,3) by (rule well_formed_plain)
  have c: "str_column (map h_ShortName h)" "str_column (map h_PortfolioName h)"
    using assms(2) by (simp_all add: well_formed_def)
  show ?thesis
    using assms(1)
    by (simp add: get_total_holdings_for_fund_def and_then_def holdings_def apply_simps
        fund_mask_plain [OF p c])
qed

lemma total_trades_well_formed:
  assumes "trades_df self = Some t" and "well_formed pf h t" and "name \<in> fund_names h t"
  shows "\<exists>count. get_total_trades_for_fund pf name self = (Inr count, self)"
proof -
  have p: "plain_pattern (lower pf name)"
    using assms(2,3) by (rule well_formed_plain)
  have c: "str_column (map t_PortfolioName t)"
    using assms(2) by (simp add: well_formed_def)
  show ?thesis
    using assms(1)
    by (simp add: get_total_trades_for_fund_def and_then_def trades_def apply_simps
        trades_mask_def lower_contains_plain [OF p c])
qed

lemma join_cells_present:
  "list_all (\<lambda>cell. cell \<noteq> None) cells \<Longrightarrow> \<exists>joined. join_cells sep cells = Inr joined"
  by (auto simp: join_cells_def list_all_iff list_ex_iff)

lemma security_type_column:
  "\<forall>r \<in> set h. h_SecurityTypeName r \<noteq> None \<Longrightarrow> str_column (map h_SecurityTypeName h)"
  by (cases h) (auto simp: str_column_def)

lemma holdings_by_security_type_literal:
  assumes "holdings_df self = Some h" and "well_formed pf h t"
    and "plain_pattern (lower pf sec_type)"
  shows "\<exists>count. get_holdings_by_security_type pf sec_type self = (Inr count, self) \<and>
           (h = [] \<longrightarrow> count = 0)"
proof -
  have c: "str_column (map h_SecurityTypeName h)"
    using assms(2) by (intro security_type_column) (simp add: well_formed_def)
  show ?thesis
    using assms(1)
    by (auto simp: get_holdings_by_security_type_def and_then_def holdings_def apply_simps
        lower_contains_plain [OF assms(3) c] mask_sum_def)
qed

lemma holdings_by_type_loop_total:
  assumes "holdings_df self = Some h" and "well_formed pf h t"
    and "list_all (\<lambda>ty. plain_pattern (lower pf ty)) types"
  shows "\<exists>ans. holdings_by_type_loop pf ql types self = (Inr ans, self) \<and>
           (h = [] \<longrightarrow> ans = ''Sorry can not find the answer'')"
  using assms(3)
proof (induction types)
  case Nil
  show ?case
    by (simp add: apply_simps not_found_def)
next
  case (Cons ty types)
  then obtain count where c: "get_holdings_by_security_type pf ty self = (Inr count, self)"
    and z: "h = [] \<longrightarrow> count = 0"
    using holdings_by_security_type_literal [OF assms(1,2), of ty] by auto
  from Cons obtain ans where a: "holdings_by_type_loop pf ql types self = (Inr ans, self)"
    and s: "h = [] \<longrightarrow> ans = ''Sorry can not find the answer''"
    by auto
  show ?case
    using z a s by (auto simp: and_then_def c apply_simps)
qed

lemma sec_types_plain:
  "list_all (\<lambda>ty. plain_pattern (lower pf ty))
     [''Equity'', ''Bond'', ''Option'', ''AssetBacked'', ''FX Forward'']"
proof -
  have "list_all plain_pattern [''equity'', ''bond'', ''option'', ''assetbacked'', ''fx forward'']"
    by code_simp
  then have "list_all plain_pattern
      (map (lower pf) [''Equity'', ''Bond'', ''Option'', ''AssetBacked'', ''FX Forward''])"
    unfolding lower_literals .
  then show ?thesis
    by simp
qed

lemma answer_holdings_by_type_total:
  assumes "holdings_df self = Some h" and "well_formed pf h t"
  shows "\<exists>ans. answer_holdings_by_type pf ql self = (Inr ans, self) \<and>
           (h = [] \<longrightarrow> ans = ''Sorry can not find the answer'')"
  unfolding answer_holdings_by_type_def
  by (rule holdings_by_type_loop_total [OF assms sec_types_plain])

lemma str_lower_column:
  "str_column col \<Longrightarrow> str_lower pf col = Inr (map (map_option (lower pf)) col)"
  by (simp add: str_lower_def str_accessor_column)

lemma format_finite_0: "format_finite 2 False 0 = ''0.00''"
  by code_simp

lemma str_column_Nil [simp]: "str_column []"
  by (simp add: str_column_def)

lemmas answer_defs =
  answer_list_funds_def get_all_funds_def answer_total_holdings_def
  answer_total_trades_def get_total_holdings_def get_total_trades_def
  answer_best_def answer_worst_def answer_performance_ranking_def answer_ranking_def
  get_best_performing_funds_def get_worst_performing_funds_def
  get_fund_performance_ranking_def groupby_sum_def unique_def sort_values_def
  answer_pnl_ytd_def answer_pnl_mtd_def answer_pnl_qtd_def
  answer_pnl_def all_funds_sum_def answer_securities_def answer_security_types_def
  get_security_types_def answer_trade_types_def get_trade_types_summary_def
  value_counts_def answer_buys_def answer_sells_def get_trades_by_type_def
  mask_sum_def answer_market_value_def sum_skipna_def money_def
  answer_custodians_def get_custodians_def set_union_def answer_counterparties_def
  get_counterparties_def answer_quantity_def

text \<open>
  The body of each rule on loaded, well-formed tables, given what \<open>extract_fund_name\<close>
  finds: it returns an answer, and the degraded answer when it reads an empty table.
  First the rules that do not look for a fund name.
\<close>

lemma rule_body_unscoped:
  assumes "holdings_df self = Some h" and "trades_df self = Some t" and "well_formed pf h t"
    and "\<not> fund_scoped rule"
  shows "\<exists>ans. rule_body rule pf q self = (Inr ans, self) \<and>
           (reads_empty_table h t rule \<longrightarrow> ans = ''Sorry can not find the answer'')"
proof -
  have h: "holdings e' self = (Inr h, self)" and t: "trades e' self = (Inr t, self)" for e'
    using assms(1,2) by (simp_all add: holdings_def trades_def)
  have c: "str_column (map t_TradeTypeName t)"
    using assms(3) by (simp add: well_formed_def)
  obtain by_type where b: "answer_holdings_by_type pf (strip (lower pf q)) self = (Inr by_type, self)"
    and b0: "h = [] \<longrightarrow> by_type = ''Sorry can not find the answer''"
    using answer_holdings_by_type_total [OF assms(1,3)] by blast
  from assms(4) show ?thesis
  proof (cases rule)
    case HoldingsByType
    with b b0 show ?thesis
      by (auto simp: reads_empty_table_def)
  qed (auto simp: reads_empty_table_def and_then_def h t apply_simps not_found_def
      lower_literals str_lower_column [OF c] answer_defs)
qed

text \<open>Then the rules that look for a fund name, when none is found.\<close>

lemma rule_body_without_name:
  assumes "holdings_df self = Some h" and "trades_df self = Some t" and "well_formed pf h t"
    and "extract_fund_name pf q self = (Inr fund, self)" and "given fund = None"
    and "fund_scoped rule"
  shows "\<exists>ans. rule_body rule pf q self = (Inr ans, self) \<and>
           (reads_empty_table h t rule \<longrightarrow> ans = degraded_answer rule None)"
proof -
  note e = assms(4) and g = assms(5)
  have h: "holdings e' self = (Inr h, self)" and t: "trades e' self = (Inr t, self)" for e'
    using assms(1,2) by (simp_all add: holdings_def trades_def)
  from assms(6) show ?thesis
    by (cases rule)
      (auto simp: reads_empty_table_def degraded_answer_def and_then_def e g h t apply_simps
        digits_0 format_finite_0 not_found_def answer_defs)
qed

lemma degraded_answer_unscoped:
  "\<not> fund_scoped rule \<Longrightarrow> degraded_answer rule fund = ''Sorry can not find the answer''"
  by (cases rule; cases fund) (simp_all add: degraded_answer_def)

lemma total_holdings_no_rows:
  assumes "holdings_df self = Some []" and "well_formed pf [] t" and "name \<in> fund_names [] t"
  shows "get_total_holdings_for_fund pf name self = (Inr None, self)"
proof -
  have p: "plain_pattern (lower pf name)"
    using assms(2,3) by (rule well_formed_plain)
  show ?thesis
    using assms(1)
    by (simp add: get_total_holdings_for_fund_def and_then_def holdings_def apply_simps
        fund_mask_plain [OF p] mask_sum_def)
qed

lemma total_trades_no_rows:
  assumes "trades_df self = Some []" and "well_formed pf h []" and "name \<in> fund_names h []"
  shows "get_total_trades_for_fund pf name self = (Inr None, self)"
proof -
  have p: "plain_pattern (lower pf name)"
    using assms(2,3) by (rule well_formed_plain)
  show ?thesis
    using assms(1)
    by (simp add: get_total_trades_for_fund_def and_then_def trades_def apply_simps
        trades_mask_def lower_contains_plain [OF p] mask_sum_def)
qed

text \<open>Last the rules that look for a fund name, when one is found.\<close>

lemma rule_body_with_name:
  assumes "holdings_df self = Some h" and "trades_df self = Some t" and "well_formed pf h t"
    and "extract_fund_name pf q self = (Inr fund, self)" and "given fund = Some name"
    and "name \<in> fund_names h t" and "fund_scoped rule"
  shows "\<exists>ans. rule_body rule pf q self = (Inr ans, self) \<and>
           (reads_empty_table h t rule \<longrightarrow> ans = degraded_answer rule (Some name))"
proof -
  note e = assms(4) and g = assms(5)
  obtain rows where rows: "fund_rows pf name self = (Inr rows, self)" and sub: "set rows \<subseteq> set h"
    using assms(1,3,6) by (rule fund_rows_well_formed)
  obtain held where held: "get_total_holdings_for_fund pf name self = (Inr held, self)"
    using total_holdings_well_formed [OF assms(1,3,6)] by blast
  obtain traded where traded: "get_total_trades_for_fund pf name self = (Inr traded, self)"
    using total_trades_well_formed [OF assms(2,3,6)] by blast
  have held0: "held = None" if "h = []"
    using that held total_holdings_no_rows [of self pf t name] assms(1,3,6) by simp
  have traded0: "traded = None" if "t = []"
    using that traded total_trades_no_rows [of self pf h name] assms(2,3,6) by simp
  have rows0: "rows = []" if "h = []"
    using that sub by simp
  have "list_all (\<lambda>cell. cell \<noteq> None) (unique (map h_SecurityTypeName rows))"
    using assms(3) sub by (auto simp: well_formed_def list_all_iff)
  then obtain joined where joined:
      "join_cells '', '' (unique (map h_SecurityTypeName rows)) = Inr joined"
    using join_cells_present by blast
  from assms(7) show ?thesis
    by (cases rule)
      (auto simp: reads_empty_table_def degraded_answer_def and_then_def e g apply_simps
        rows held traded joined not_found_for_fund_def
        answer_total_holdings_def answer_total_trades_def
        answer_pnl_ytd_def answer_pnl_mtd_def answer_pnl_qtd_def answer_pnl_def
        answer_securities_def answer_security_types_def answer_market_value_def
        answer_quantity_def fund_sum_def fund_unique_def
        get_fund_pnl_ytd_def get_pnl_mtd_def get_pnl_qtd_def get_fund_market_value_def
        get_total_quantity_for_fund_def get_securities_for_fund_def
        get_security_types_for_fund_def
        dest: held0 traded0 rows0 split: option.splits)
qed

text \<open>
  So on loaded, well-formed tables every rule body returns an answer, and the degraded
  answer when the rule reads an empty table.
\<close>

lemma rule_body_loaded:
  assumes "holdings_df self = Some h" and "trades_df self = Some t" and "well_formed pf h t"
    and "extract_fund_name pf q self = (Inr fund, self)"
    and "\<And>name. fund = Some name \<Longrightarrow> name \<in> fund_names h t"
  shows "\<exists>ans. rule_body rule pf q self = (Inr ans, self) \<and>
           (reads_empty_table h t rule \<longrightarrow> ans = degraded_answer rule (given fund))"
proof (cases "fund_scoped rule")
  case False
  with rule_body_unscoped [OF assms(1-3) False] show ?thesis
    by (simp add: degraded_answer_unscoped)
next
  case True
  show ?thesis
  proof (cases "given fund")
    case None
    with rule_body_without_name [OF assms(1-4) None True] show ?thesis
      by simp
  next
    case (Some name)
    then have "name \<in> fund_names h t"
      using assms(5) by (auto dest: given_SomeD)
    with rule_body_with_name [OF assms(1-4) Some _ True] Some show ?thesis
      by simp
  qed
qed

text \<open>
  For the record, the outcome with both tables absent: only the blank question, the
  help and a question that triggers no rule are answered; the three ranking rules
  raise \<open>AttributeError\<close>, every other rule \<open>TypeError\<close>.
\<close>

lemma holdings_by_type_loop_absent:
  assumes "holdings_df self = None"
    and "list_ex (\<lambda>ty. str_in (lower pf ty) ql) types"
  shows "holdings_by_type_loop pf ql types self = (Inl TypeError, self)"
  using assms(2)
proof (induction types)
  case Nil
  then show ?case by simp
next
  case (Cons ty types)
  have "get_holdings_by_security_type pf ty self = (Inl TypeError, self)"
    using assms(1) by (simp add: get_holdings_by_security_type_def and_then_def holdings_def)
  with Cons show ?case
    by (auto simp: and_then_def)
qed

lemma unloaded_outcome:
  assumes "holdings_df self = None" and "trades_df self = None"
    and "strip (lower pf q) \<noteq> []"
  shows "process_question pf q self =
     (case classify pf (strip (lower pf q)) of
        Help \<Rightarrow> Inr help_text
      | NoRule \<Rightarrow> Inr ''Sorry can not find the answer''
      | BestPerforming \<Rightarrow> Inl AttributeError
      | WorstPerforming \<Rightarrow> Inl AttributeError
      | PerformanceRanking \<Rightarrow> Inl AttributeError
      | _ \<Rightarrow> Inl TypeError, self)"
proof -
  let ?ql = "strip (lower pf q)"
  have h: "holdings e self = (Inl e, self)" and t: "trades e self = (Inl e, self)" for e
    using assms(1,2) by (simp_all add: holdings_def trades_def)
  have f: "get_all_funds self = (Inl TypeError, self)"
    by (simp add: get_all_funds_def and_then_def h)
  have e: "extract_fund_name pf q self = (Inl TypeError, self)"
    by (simp add: extract_fund_name_def and_then_def f)
  have b: "answer_holdings_by_type pf ?ql self = (Inl TypeError, self)"
    if "classify pf ?ql = HoldingsByType"
  proof -
    from that have "holdings_by_type_trigger pf ?ql"
      by (simp add: classify_def split: if_splits)
    then have "list_ex (\<lambda>ty. str_in (lower pf ty) ?ql)
        [''Equity'', ''Bond'', ''Option'', ''AssetBacked'', ''FX Forward'']"
      unfolding holdings_by_type_trigger_def any_in_def lower_literals
      using lower_literals(2) [of pf] by simp
    then show ?thesis
      unfolding answer_holdings_by_type_def
      by (rule holdings_by_type_loop_absent [OF assms(1)])
  qed
  have "rule_body (classify pf ?ql) pf q self =
     (case classify pf ?ql of
        Help \<Rightarrow> Inr help_text
      | NoRule \<Rightarrow> Inr ''Sorry can not find the answer''
      | BestPerforming \<Rightarrow> Inl AttributeError
      | WorstPerforming \<Rightarrow> Inl AttributeError
      | PerformanceRanking \<Rightarrow> Inl AttributeError
      | _ \<Rightarrow> Inl TypeError, self)"
  proof (cases "classify pf ?ql")
    case HoldingsByType
    with b show ?thesis
      by simp
  qed (simp_all add: and_then_def h t f e apply_simps not_found_def answer_defs)
  with assms(3) show ?thesis
    by (simp add: process_question_classify)
qed

text \<open>
  Claim C1, as amended. Both tables are loaded and one of them, or both, have no rows;
  the rows that there are have fund names free of regular-expression characters, text
  columns with at least one string, and a security type for every holding. Then every
  question is answered and nothing is raised. A blank question is asked to be entered,
  the help is given when asked for, and a question that triggers no rule gets the
  generic sentinel. A rule that reads an empty table degrades: with a fund name
  extracted from the question (a fund of the other table) a fund-scoped rule answers
  with the sentinel for that fund; without one, the holdings and trades counts answer
  0, the market value \<open>$0.00\<close>, securities and quantity ask for a fund name; every
  other such rule answers with the generic sentinel.
\<close>

theorem C1_either_table_empty:
  assumes "holdings_df self = Some h" and "trades_df self = Some t"
    and "h = [] \<or> t = []"
    and "iterates_members pf" and "well_formed pf h t"
  shows "\<exists>ans fund.
           process_question pf q self = (Inr ans, self) \<and>
           extract_fund_name pf q self = (Inr fund, self) \<and>
           (strip (lower pf q) = [] \<longrightarrow> ans = ''Please enter a question.'') \<and>
           (strip (lower pf q) \<noteq> [] \<and> reads_empty_table h t (classify pf (strip (lower pf q))) \<longrightarrow>
              ans = degraded_answer (classify pf (strip (lower pf q))) (given fund)) \<and>
           (strip (lower pf q) \<noteq> [] \<and> classify pf (strip (lower pf q)) = Help \<longrightarrow>
              ans = help_text) \<and>
           (strip (lower pf q) \<noteq> [] \<and> classify pf (strip (lower pf q)) = NoRule \<longrightarrow>
              ans = ''Sorry can not find the answer'')"
proof -
  obtain fund where e: "extract_fund_name pf q self = (Inr fund, self)"
    and m: "\<And>name. fund = Some name \<Longrightarrow> name \<in> fund_names h t"
    using extract_loaded [OF assms(1,2,4), of q] by blast
  obtain ans where a: "rule_body (classify pf (strip (lower pf q))) pf q self = (Inr ans, self)"
    and d: "reads_empty_table h t (classify pf (strip (lower pf q))) \<longrightarrow>
      ans = degraded_answer (classify pf (strip (lower pf q))) (given fund)"
    using rule_body_loaded [OF assms(1,2,5) e m] by blast
  show ?thesis
  proof (cases "strip (lower pf q) = []")
    case True
    then show ?thesis
      using e by (simp add: process_question_classify apply_simps)
  next
    case False
    have "classify pf (strip (lower pf q)) = Help \<longrightarrow> ans = help_text"
      using a by (auto simp: apply_simps)
    moreover have "classify pf (strip (lower pf q)) = NoRule \<longrightarrow> ans = ''Sorry can not find the answer''"
      using a by (auto simp: apply_simps not_found_def)
    ultimately show ?thesis
      using False a d e by (simp add: process_question_classify)
  qed
qed

theorem C1_either_table_empty_witness:
  "holdings_df no_trades_bot = Some (the (holdings_df ex_bot)) \<and>
   trades_df no_trades_bot = Some [] \<and>
   iterates_members ex_platform \<and>
   well_formed ex_platform (the (holdings_df ex_bot)) [] \<and>
   reads_empty_table (the (holdings_df ex_bot)) []
     (classify ex_platform (strip (lower ex_platform ''Total trades for Garfield''))) \<and>
   process_question ex_platform ''Total trades for Garfield'' no_trades_bot =
     (Inr (''Sorry can not find the answer for fund '' @ [CHR 0x27] @ ''Garfield'' @ [CHR 0x27]),
      no_trades_bot) \<and>
   extract_fund_name ex_platform ''Total trades for Garfield'' no_trades_bot =
     (Inr (Some ''Garfield''), no_trades_bot)"
proof -
  let ?h = "the (holdings_df ex_bot)"
  let ?q = "''Total trades for Garfield''"
  have h1: "holdings_df no_trades_bot = Some ?h"
    by (simp add: no_trades_bot_def ex_bot_def)
  have h2: "trades_df no_trades_bot = Some []"
    by (simp add: no_trades_bot_def)
  have h3: "?h = [] \<or> ([] :: trade list) = []"
    by simp
  have h4: "iterates_members ex_platform"
    by (simp add: iterates_members_def ex_platform_def)
  have names: "fund_names ?h [] =
      set (dropna (map h_ShortName ?h) @ dropna (map h_PortfolioName ?h))"
    by (simp add: fund_names_def)
  have "list_all (\<lambda>name. plain_pattern (lower ex_platform name))
      (dropna (map h_ShortName ?h) @ dropna (map h_PortfolioName ?h))"
    by code_simp
  then have plain: "\<forall>name \<in> fund_names ?h []. plain_pattern (lower ex_platform name)"
    unfolding names by (simp only: list_all_iff)
  have "list_all (\<lambda>r. h_SecurityTypeName r \<noteq> None) ?h"
    by code_simp
  then have types: "\<forall>r \<in> set ?h. h_SecurityTypeName r \<noteq> None"
    by (simp only: list_all_iff)
  have cols: "str_column (map h_ShortName ?h)" "str_column (map h_PortfolioName ?h)"
    by code_simp+
  have h5: "well_formed ex_platform ?h []"
    using plain types cols by (simp add: well_formed_def)
  have r: "reads_empty_table ?h [] (classify ex_platform (strip (lower ex_platform ?q)))"
    by code_simp
  have ne: "strip (lower ex_platform ?q) \<noteq> []"
    by code_simp
  have d: "degraded_answer (classify ex_platform (strip (lower ex_platform ?q))) (given (Some ''Garfield'')) =
      ''Sorry can not find the answer for fund '' @ [CHR 0x27] @ ''Garfield'' @ [CHR 0x27]"
    by code_simp
  have "fst (extract_fund_name ex_platform ?q no_trades_bot) = Inr (Some ''Garfield'')"
    by code_simp
  then have e: "extract_fund_name ex_platform ?q no_trades_bot = (Inr (Some ''Garfield''), no_trades_bot)"
    using preservesD [OF preserves_extract_fund_name, of ex_platform ?q no_trades_bot] by simp
  from C1_either_table_empty [OF h1 h2 h3 h4 h5, of ?q] h1 h2 h4 h5 r ne d e
  show ?thesis
    by auto
qed

text \<open>
  The claim as stated fails. With both tables absent, as a failed load leaves them,
  listing the funds raises \<open>TypeError\<close>, and so does counting the trades when only the
  trades table is absent. With both tables loaded and empty, the holdings count is not
  the sentinel but a count of 0. With the trades table empty and one holding, a
  question about the holding raises: \<open>AttributeError\<close> when the short name is missing,
  \<open>TypeError\<close> when the security type is missing and the types are asked for,
  \<open>re.error\<close> when the fund name has an open parenthesis.
\<close>

theorem C1_absent_raises_empty_counts:
  "fst (process_question ex_platform ''List all funds'' unloaded_bot) = Inl TypeError \<and>
   fst (process_question ex_platform ''How many trades are there?'' trades_absent_bot) = Inl TypeError \<and>
   classify ex_platform (strip (lower ex_platform ''How many holdings are there?'')) = TotalHoldings \<and>
   fst (process_question ex_platform ''How many holdings are there?'' empty_bot) =
     Inr ''Total number of holdings across all funds: 0'' \<and>
   ''Total number of holdings across all funds: 0'' \<noteq> ''Sorry can not find the answer'' \<and>
   fst (process_question ex_platform ''Total holdings for Garfield Master'' no_short_name_bot) =
     Inl AttributeError \<and>
   fst (process_question ex_platform ''Security types for Garfield'' no_type_bot) = Inl TypeError \<and>
   fst (process_question ex_platform ''Total holdings for Fund (A'' paren_bot) = Inl ReError"
  by code_simp

end
